theory Spec2Isabelle
  imports Complex_Main
begin

section \<open>Data model\<close>

text \<open>
  The booking lifecycle of QuickServe lives in three route modules: the public booking
  routes (create, status update, accept), the admin booking routes (cancel) and the
  public payment routes (initiate). Each handler is modelled twice. First as a
  function from the database before the request to the response (an error or a
  record) and the database after it: the request served alone. Then, in the section
  on requests in flight, step by step, one step for each \<open>await\<close> of the handler, so
  that the steps of several requests can be interleaved; served alone, the steps give
  the first function. The authenticated user (\<open>req.user\<close>), the clock (\<open>new Date()\<close>)
  and the identifier the database generates for a new row are arguments.

  Identifiers are strings, prices are numbers (modelled as reals), dates are
  milliseconds since the epoch. A nullable column is an \<open>option\<close>. The booking table is
  a map from the booking id (the primary key) to the row; the conversation table and
  the socket emits of the handlers hold no booking state and are left out. Foreign
  keys are not enforced: the model may accept a row that the database would refuse,
  never the other way round.
\<close>

type_synonym ident = string
type_synonym date = nat

datatype BookingStatus =
  PENDING | ACCEPTED | WORKER_EN_ROUTE | IN_PROGRESS | COMPLETED | CANCELLED

datatype VerificationStatus = VERIFICATION_PENDING | VERIFIED | REJECTED

datatype UserRole = CUSTOMER | WORKER | ADMIN

datatype PaymentMethod = MTN_MOMO | VODAFONE_CASH | CASH

datatype PaymentStatus = PAYMENT_PROCESSING | PAYMENT_COMPLETED | PAYMENT_FAILED

record Booking =
  customerId :: ident
  workerId :: "ident option"
  categoryId :: ident
  description :: string
  latitude :: real
  longitude :: real
  address :: string
  status :: BookingStatus
  estimatedPrice :: "real option"
  finalPrice :: "real option"
  scheduledAt :: "date option"
  startedAt :: "date option"
  completedAt :: "date option"
  createdAt :: date

record Worker =
  workerKey :: ident
  userId :: ident
  verificationStatus :: VerificationStatus

record WorkerService =
  serviceWorkerId :: ident
  serviceCategoryId :: ident
  isActive :: bool
  basePrice :: real

record ServiceCategory =
  categoryKey :: ident
  categoryName :: string

record Payment =
  amount :: real
  paymentMethod :: PaymentMethod
  paymentStatus :: PaymentStatus
  paidAt :: "date option"

text \<open>A notification body is a string, or a template literal around a number.\<close>

datatype NotifyBody = Literal string | WithAmount string real string

record Notification =
  notifyUserId :: ident
  notifyType :: string
  notifyTitle :: string
  notifyBody :: NotifyBody
  notifyBookingId :: ident

record db =
  bookings :: "ident \<rightharpoonup> Booking"
  workers :: "Worker list"
  workerServices :: "WorkerService list"
  serviceCategories :: "ServiceCategory list"
  payments :: "ident \<rightharpoonup> Payment"
  notifications :: "Notification list"

record AuthUser =
  uid :: ident
  role :: UserRole

text \<open>
  \<open>AppError(statusCode, message, code)\<close> of the error middleware, the \<open>ZodError\<close> a
  schema raises (reported as \<open>VALIDATION_ERROR\<close>), and the known request errors of the
  data mapper (\<open>P2002\<close> duplicate key, \<open>P2025\<close> record not found).
\<close>

datatype error =
  ZodError
  | AppError nat string string
  | PrismaError string

subsection \<open>JavaScript truthiness\<close>

text \<open>\<open>!x\<close> on a nullable string holds for \<open>null\<close> and for the empty string; on a
  nullable number it holds for \<open>null\<close> and zero.\<close>

definition falsyString :: "string option \<Rightarrow> bool" where
  "falsyString x = (case x of None \<Rightarrow> True | Some s \<Rightarrow> s = [])"

definition falsyNumber :: "real option \<Rightarrow> bool" where
  "falsyNumber x = (case x of None \<Rightarrow> True | Some n \<Rightarrow> n = 0)"

subsection \<open>Queries and writes of the data mapper\<close>

definition findWorkerById :: "db \<Rightarrow> ident \<Rightarrow> Worker option" where
  "findWorkerById d w = find (\<lambda>x. workerKey x = w) (workers d)"

definition findWorkerByUserId :: "db \<Rightarrow> ident \<Rightarrow> Worker option" where
  "findWorkerByUserId d u = find (\<lambda>x. userId x = u) (workers d)"

text \<open>\<open>include: { worker: true }\<close>: the worker row the booking's \<open>workerId\<close> refers to.\<close>

definition bookingWorker :: "db \<Rightarrow> Booking \<Rightarrow> Worker option" where
  "bookingWorker d b = (case workerId b of None \<Rightarrow> None | Some w \<Rightarrow> findWorkerById d w)"

text \<open>The \<open>data\<close> of \<open>prisma.booking.update\<close>: a column that is not mentioned (\<open>None\<close>)
  keeps its value. No handler writes \<open>null\<close> into a column.\<close>

record BookingUpdate =
  setStatus :: "BookingStatus option"
  setWorkerId :: "ident option"
  setEstimatedPrice :: "real option"
  setFinalPrice :: "real option"
  setStartedAt :: "date option"
  setCompletedAt :: "date option"

definition applyUpdate :: "BookingUpdate \<Rightarrow> Booking \<Rightarrow> Booking" where
  "applyUpdate u b = b
     \<lparr> status := (case setStatus u of None \<Rightarrow> status b | Some s \<Rightarrow> s),
       workerId := (case setWorkerId u of None \<Rightarrow> workerId b | Some w \<Rightarrow> Some w),
       estimatedPrice :=
         (case setEstimatedPrice u of None \<Rightarrow> estimatedPrice b | Some p \<Rightarrow> Some p),
       finalPrice := (case setFinalPrice u of None \<Rightarrow> finalPrice b | Some p \<Rightarrow> Some p),
       startedAt := (case setStartedAt u of None \<Rightarrow> startedAt b | Some t \<Rightarrow> Some t),
       completedAt :=
         (case setCompletedAt u of None \<Rightarrow> completedAt b | Some t \<Rightarrow> Some t) \<rparr>"

definition bookingUpdate :: "db \<Rightarrow> ident \<Rightarrow> BookingUpdate \<Rightarrow> (error + Booking) \<times> db" where
  "bookingUpdate d i u =
     (case bookings d i of
        None \<Rightarrow> (Inl (PrismaError ''P2025''), d)
      | Some b \<Rightarrow>
          (Inr (applyUpdate u b), d\<lparr>bookings := (bookings d)(i \<mapsto> applyUpdate u b)\<rparr>))"

definition notificationCreate :: "db \<Rightarrow> Notification \<Rightarrow> db" where
  "notificationCreate d n = d\<lparr>notifications := notifications d @ [n]\<rparr>"

section \<open>PATCH /api/v1/bookings/:id/status\<close>

fun statusName :: "BookingStatus \<Rightarrow> string" where
  "statusName PENDING = ''PENDING''"
| "statusName ACCEPTED = ''ACCEPTED''"
| "statusName WORKER_EN_ROUTE = ''WORKER_EN_ROUTE''"
| "statusName IN_PROGRESS = ''IN_PROGRESS''"
| "statusName COMPLETED = ''COMPLETED''"
| "statusName CANCELLED = ''CANCELLED''"

text \<open>The request body as it arrives, and what \<open>updateBookingStatusSchema.parse\<close>
  returns: the status must be one of five names (\<open>PENDING\<close> is not among them), the
  optional \<open>finalPrice\<close> must be positive.\<close>

record StatusBody =
  bodyStatus :: string
  bodyFinalPrice :: "real option"

record StatusData =
  dataStatus :: BookingStatus
  dataFinalPrice :: "real option"

definition statusEnum :: "string \<Rightarrow> BookingStatus option" where
  "statusEnum s =
     find (\<lambda>t. statusName t = s) [ACCEPTED, WORKER_EN_ROUTE, IN_PROGRESS, COMPLETED, CANCELLED]"

definition updateBookingStatusSchema :: "StatusBody \<Rightarrow> StatusData option" where
  "updateBookingStatusSchema body =
     (case statusEnum (bodyStatus body) of
        None \<Rightarrow> None
      | Some s \<Rightarrow>
          (case bodyFinalPrice body of
             None \<Rightarrow> Some \<lparr>dataStatus = s, dataFinalPrice = None\<rparr>
           | Some p \<Rightarrow>
               if 0 < p then Some \<lparr>dataStatus = s, dataFinalPrice = Some p\<rparr> else None))"

text \<open>\<open>validTransitions\<close>: the terminal statuses are not keys of the table.\<close>

fun validTransitions :: "BookingStatus \<Rightarrow> BookingStatus list option" where
  "validTransitions PENDING = Some [ACCEPTED, CANCELLED]"
| "validTransitions ACCEPTED = Some [WORKER_EN_ROUTE, CANCELLED]"
| "validTransitions WORKER_EN_ROUTE = Some [IN_PROGRESS, CANCELLED]"
| "validTransitions IN_PROGRESS = Some [COMPLETED, CANCELLED]"
| "validTransitions COMPLETED = None"
| "validTransitions CANCELLED = None"

text \<open>\<open>validTransitions[from]?.includes(to)\<close>, read as a condition.\<close>

definition transitionAllowed :: "BookingStatus \<Rightarrow> BookingStatus \<Rightarrow> bool" where
  "transitionAllowed from to =
     (case validTransitions from of None \<Rightarrow> False | Some ts \<Rightarrow> to \<in> set ts)"

definition invalidTransition :: "BookingStatus \<Rightarrow> BookingStatus \<Rightarrow> error" where
  "invalidTransition from to =
     AppError 400 (''Cannot transition from '' @ statusName from @ '' to '' @ statusName to)
       ''INVALID_STATUS_TRANSITION''"

text \<open>\<open>notificationTypes\<close>: type, title and body of the customer's notification.\<close>

fun notificationTypes :: "BookingStatus \<Rightarrow> (string \<times> string \<times> string) option" where
  "notificationTypes ACCEPTED =
     Some (''BOOKING_ACCEPTED'', ''Booking Accepted'', ''Your service request has been accepted'')"
| "notificationTypes WORKER_EN_ROUTE =
     Some (''WORKER_EN_ROUTE'', ''Worker On The Way'', ''Your service provider is on the way'')"
| "notificationTypes COMPLETED =
     Some (''SERVICE_COMPLETED'', ''Service Completed'',
       ''Your service has been completed. Please rate your experience.'')"
| "notificationTypes _ = None"

text \<open>The branch commented "Worker accepting open booking": the worker id to write,
  if any, or the error it throws.\<close>

definition openBookingWorker ::
  "db \<Rightarrow> AuthUser \<Rightarrow> Booking \<Rightarrow> BookingStatus \<Rightarrow> error + ident option" where
  "openBookingWorker d user booking target =
     (if target = ACCEPTED \<and> falsyString (workerId booking) then
        (case findWorkerByUserId d (uid user) of
           None \<Rightarrow> Inl (AppError 400 ''Worker profile not found'' ''NOT_WORKER'')
         | Some worker \<Rightarrow> Inr (Some (workerKey worker)))
      else Inr None)"

definition statusUpdateData :: "StatusData \<Rightarrow> ident option \<Rightarrow> date \<Rightarrow> BookingUpdate" where
  "statusUpdateData dat w now =
     \<lparr> setStatus = Some (dataStatus dat),
       setWorkerId = w,
       setEstimatedPrice = None,
       setFinalPrice =
         (if dataStatus dat = COMPLETED \<and> \<not> falsyNumber (dataFinalPrice dat)
          then dataFinalPrice dat else None),
       setStartedAt = (if dataStatus dat = IN_PROGRESS then Some now else None),
       setCompletedAt = (if dataStatus dat = COMPLETED then Some now else None) \<rparr>"

definition notifyCustomer :: "db \<Rightarrow> ident \<Rightarrow> Booking \<Rightarrow> BookingStatus \<Rightarrow> db" where
  "notifyCustomer d bid booking target =
     (case notificationTypes target of
        None \<Rightarrow> d
      | Some (ty, ti, bo) \<Rightarrow>
          notificationCreate d
            \<lparr> notifyUserId = customerId booking, notifyType = ty, notifyTitle = ti,
              notifyBody = Literal bo, notifyBookingId = bid \<rparr>)"

definition patchBookingStatus ::
  "db \<Rightarrow> AuthUser \<Rightarrow> ident \<Rightarrow> StatusBody \<Rightarrow> date \<Rightarrow> (error + Booking) \<times> db" where
  "patchBookingStatus d user bid body now =
     (case updateBookingStatusSchema body of
        None \<Rightarrow> (Inl ZodError, d)
      | Some dat \<Rightarrow>
     (case bookings d bid of
        None \<Rightarrow> (Inl (AppError 404 ''Booking not found'' ''NOT_FOUND''), d)
      | Some booking \<Rightarrow>
          let isWorker =
                (case bookingWorker d booking of
                   None \<Rightarrow> False
                 | Some w \<Rightarrow> userId w = uid user);
              isCustomer = (customerId booking = uid user)
          in
          if \<not> transitionAllowed (status booking) (dataStatus dat) then
            (Inl (invalidTransition (status booking) (dataStatus dat)), d)
          else if dataStatus dat = CANCELLED \<and> \<not> isWorker \<and> \<not> isCustomer then
            (Inl (AppError 403 ''Only customer or worker can cancel'' ''FORBIDDEN''), d)
          else if dataStatus dat \<noteq> CANCELLED \<and> \<not> isWorker then
            (Inl (AppError 403 ''Only worker can update status'' ''FORBIDDEN''), d)
          else
            (case openBookingWorker d user booking (dataStatus dat) of
               Inl e \<Rightarrow> (Inl e, d)
             | Inr w \<Rightarrow>
                 (case bookingUpdate d bid (statusUpdateData dat w now) of
                    (Inl e, d') \<Rightarrow> (Inl e, d')
                  | (Inr updatedBooking, d') \<Rightarrow>
                      (Inr updatedBooking,
                       notifyCustomer d' bid booking (dataStatus dat))))))"

text \<open>The transition table of the specification (section 4.1), as pairs.\<close>

definition transitionTable :: "(BookingStatus \<times> BookingStatus) list" where
  "transitionTable =
     [(PENDING, ACCEPTED), (PENDING, CANCELLED),
      (ACCEPTED, WORKER_EN_ROUTE), (ACCEPTED, CANCELLED),
      (WORKER_EN_ROUTE, IN_PROGRESS), (WORKER_EN_ROUTE, CANCELLED),
      (IN_PROGRESS, COMPLETED), (IN_PROGRESS, CANCELLED)]"

section \<open>POST /api/v1/bookings\<close>

text \<open>The \<open>scheduledAt\<close> of a request is an optional string; zod's \<open>datetime()\<close> check
  and the \<open>Date\<close> constructor read it. The model keeps what they find: nothing, a string
  that is no ISO datetime, or the instant it denotes.\<close>

datatype ScheduledAt = NotGiven | NotIsoDatetime string | IsoDatetime date

record CreateBody =
  bodyCategoryId :: string
  bodyWorkerId :: "string option"
  bodyDescription :: string
  bodyLatitude :: real
  bodyLongitude :: real
  bodyAddress :: string
  bodyScheduledAt :: ScheduledAt

definition createBookingSchema :: "CreateBody \<Rightarrow> bool" where
  "createBookingSchema body \<longleftrightarrow>
     10 \<le> length (bodyDescription body) \<and> length (bodyDescription body) \<le> 1000 \<and>
     - 90 \<le> bodyLatitude body \<and> bodyLatitude body \<le> 90 \<and>
     - 180 \<le> bodyLongitude body \<and> bodyLongitude body \<le> 180 \<and>
     5 \<le> length (bodyAddress body) \<and> length (bodyAddress body) \<le> 500 \<and>
     (case bodyScheduledAt body of NotIsoDatetime _ \<Rightarrow> False | _ \<Rightarrow> True)"

text \<open>\<open>prisma.workerService.findFirst\<close> with a filter on the service's worker (its id and
  \<open>verificationStatus: 'VERIFIED'\<close>), the category and \<open>isActive\<close>.\<close>

definition findVerifiedWorkerService :: "db \<Rightarrow> ident \<Rightarrow> ident \<Rightarrow> WorkerService option" where
  "findVerifiedWorkerService d w c =
     find (\<lambda>s.
        (case findWorkerById d (serviceWorkerId s) of
           None \<Rightarrow> False
         | Some x \<Rightarrow> workerKey x = w \<and> verificationStatus x = VERIFIED) \<and>
        serviceCategoryId s = c \<and> isActive s) (workerServices d)"

text \<open>"If worker specified, verify they offer this service": the estimated price, or
  the error thrown.\<close>

definition requestedWorkerPrice :: "db \<Rightarrow> CreateBody \<Rightarrow> error + real option" where
  "requestedWorkerPrice d body =
     (case bodyWorkerId body of
        None \<Rightarrow> Inr None
      | Some w \<Rightarrow>
          if w = [] then Inr None
          else
            (case findVerifiedWorkerService d w (bodyCategoryId body) of
               None \<Rightarrow> Inl (AppError 400 ''Worker does not offer this service'' ''INVALID_WORKER'')
             | Some workerService \<Rightarrow> Inr (Some (basePrice workerService))))"

text \<open>\<open>prisma.booking.create\<close>: the new row gets the id the database generates; a
  primary key in use is the duplicate-key error \<open>P2002\<close>.\<close>

definition bookingCreate :: "db \<Rightarrow> ident \<Rightarrow> Booking \<Rightarrow> (error + Booking) \<times> db" where
  "bookingCreate d i b =
     (case bookings d i of
        Some _ \<Rightarrow> (Inl (PrismaError ''P2002''), d)
      | None \<Rightarrow> (Inr b, d\<lparr>bookings := (bookings d)(i \<mapsto> b)\<rparr>))"

definition notifyRequestedWorker ::
  "db \<Rightarrow> CreateBody \<Rightarrow> ident \<Rightarrow> Booking \<Rightarrow> ServiceCategory \<Rightarrow> db" where
  "notifyRequestedWorker d body bid booking category =
     (if falsyString (bodyWorkerId body) then d
      else
        (case bookingWorker d booking of
           None \<Rightarrow> d
         | Some w \<Rightarrow>
             notificationCreate d
               \<lparr> notifyUserId = userId w, notifyType = ''BOOKING_REQUEST'',
                 notifyTitle = ''New Booking Request'',
                 notifyBody = Literal (''New '' @ categoryName category @ '' service request''),
                 notifyBookingId = bid \<rparr>))"

definition postBooking ::
  "db \<Rightarrow> AuthUser \<Rightarrow> CreateBody \<Rightarrow> ident \<Rightarrow> date \<Rightarrow> (error + Booking) \<times> db" where
  "postBooking d user body newId now =
     (if \<not> createBookingSchema body then (Inl ZodError, d)
      else
        (case find (\<lambda>c. categoryKey c = bodyCategoryId body) (serviceCategories d) of
           None \<Rightarrow> (Inl (AppError 404 ''Service category not found'' ''NOT_FOUND''), d)
         | Some category \<Rightarrow>
             (case requestedWorkerPrice d body of
                Inl e \<Rightarrow> (Inl e, d)
              | Inr estimated \<Rightarrow>
                  (case bookingCreate d newId
                      \<lparr> customerId = uid user,
                        workerId = bodyWorkerId body,
                        categoryId = bodyCategoryId body,
                        description = bodyDescription body,
                        latitude = bodyLatitude body,
                        longitude = bodyLongitude body,
                        address = bodyAddress body,
                        status = (if falsyString (bodyWorkerId body) then PENDING else PENDING),
                        estimatedPrice = estimated,
                        finalPrice = None,
                        scheduledAt =
                          (case bodyScheduledAt body of IsoDatetime t \<Rightarrow> Some t | _ \<Rightarrow> None),
                        startedAt = None,
                        completedAt = None,
                        createdAt = now \<rparr> of
                     (Inl e, d') \<Rightarrow> (Inl e, d')
                   | (Inr booking, d') \<Rightarrow>
                       (Inr booking, notifyRequestedWorker d' body newId booking category)))))"

section \<open>POST /api/v1/bookings/:id/accept\<close>

definition findWorkerService :: "db \<Rightarrow> ident \<Rightarrow> ident \<Rightarrow> WorkerService option" where
  "findWorkerService d w c =
     find (\<lambda>s. serviceWorkerId s = w \<and> serviceCategoryId s = c \<and> isActive s) (workerServices d)"

text \<open>The handler awaits three reads and throws on what they return, then awaits its
  writes. The two halves are separate functions, so that the handler is their
  composition and a schedule of the event loop can place another request between them.\<close>

definition acceptReads :: "db \<Rightarrow> AuthUser \<Rightarrow> ident \<Rightarrow> error + Worker \<times> Booking \<times> WorkerService" where
  "acceptReads d user bid =
     (if role user \<noteq> WORKER then Inl (AppError 403 ''Insufficient permissions'' ''FORBIDDEN'')
      else
        (case findWorkerByUserId d (uid user) of
           None \<Rightarrow> Inl (AppError 403 ''Worker not verified'' ''NOT_VERIFIED'')
         | Some worker \<Rightarrow>
             if verificationStatus worker \<noteq> VERIFIED then
               Inl (AppError 403 ''Worker not verified'' ''NOT_VERIFIED'')
             else
               (case bookings d bid of
                  None \<Rightarrow> Inl (AppError 404 ''Booking not found'' ''NOT_FOUND'')
                | Some booking \<Rightarrow>
                    if status booking \<noteq> PENDING then
                      Inl (AppError 400 ''Booking is not available'' ''NOT_AVAILABLE'')
                    else
                      (case findWorkerService d (workerKey worker) (categoryId booking) of
                         None \<Rightarrow>
                           Inl (AppError 400 ''You do not offer this service''
                                  ''SERVICE_NOT_OFFERED'')
                       | Some workerService \<Rightarrow> Inr (worker, booking, workerService)))))"

definition acceptUpdateData :: "Worker \<Rightarrow> WorkerService \<Rightarrow> BookingUpdate" where
  "acceptUpdateData worker workerService =
     \<lparr> setStatus = Some ACCEPTED,
       setWorkerId = Some (workerKey worker),
       setEstimatedPrice = Some (basePrice workerService),
       setFinalPrice = None,
       setStartedAt = None,
       setCompletedAt = None \<rparr>"

definition acceptWrites ::
  "db \<Rightarrow> ident \<Rightarrow> Worker \<times> Booking \<times> WorkerService \<Rightarrow> (error + Booking) \<times> db" where
  "acceptWrites d bid r =
     (case r of (worker, booking, workerService) \<Rightarrow>
        (case bookingUpdate d bid (acceptUpdateData worker workerService) of
           (Inl e, d') \<Rightarrow> (Inl e, d')
         | (Inr updatedBooking, d') \<Rightarrow>
             (Inr updatedBooking,
              notificationCreate d'
                \<lparr> notifyUserId = customerId booking, notifyType = ''BOOKING_ACCEPTED'',
                  notifyTitle = ''Booking Accepted'',
                  notifyBody = Literal ''A worker has accepted your service request'',
                  notifyBookingId = bid \<rparr>)))"

definition postAccept :: "db \<Rightarrow> AuthUser \<Rightarrow> ident \<Rightarrow> (error + Booking) \<times> db" where
  "postAccept d user bid =
     (case acceptReads d user bid of
        Inl e \<Rightarrow> (Inl e, d)
      | Inr r \<Rightarrow> acceptWrites d bid r)"

section \<open>POST /api/v1/admin/bookings/:id/cancel\<close>

text \<open>The route is mounted behind \<open>adminOnly\<close>; the handler itself reads nothing of the
  caller.\<close>

definition notifyCancelledWorker :: "db \<Rightarrow> ident \<Rightarrow> Booking \<Rightarrow> db" where
  "notifyCancelledWorker d bid booking =
     (case workerId booking of
        None \<Rightarrow> d
      | Some w \<Rightarrow>
          if w = [] then d
          else
            (case findWorkerById d w of
               None \<Rightarrow> d
             | Some worker \<Rightarrow>
                 notificationCreate d
                   \<lparr> notifyUserId = userId worker, notifyType = ''BOOKING_CANCELLED'',
                     notifyTitle = ''Booking Cancelled'',
                     notifyBody = Literal ''A booking has been cancelled by admin.'',
                     notifyBookingId = bid \<rparr>))"

definition adminCancel :: "db \<Rightarrow> ident \<Rightarrow> (error + Booking) \<times> db" where
  "adminCancel d bid =
     (case bookingUpdate d bid
         \<lparr> setStatus = Some CANCELLED, setWorkerId = None, setEstimatedPrice = None,
           setFinalPrice = None, setStartedAt = None, setCompletedAt = None \<rparr> of
        (Inl e, d') \<Rightarrow> (Inl e, d')
      | (Inr booking, d') \<Rightarrow>
          (Inr booking,
           notificationCreate (notifyCancelledWorker d' bid booking)
             \<lparr> notifyUserId = customerId booking, notifyType = ''BOOKING_CANCELLED'',
               notifyTitle = ''Booking Cancelled'',
               notifyBody = Literal ''Your booking has been cancelled.'',
               notifyBookingId = bid \<rparr>))"

section \<open>POST /api/v1/payments/initiate\<close>

text \<open>\<open>initiatePaymentSchema\<close> admits exactly the three methods of \<open>PaymentMethod\<close>. The
  payment table holds at most one payment per booking (the upsert is keyed by
  \<open>bookingId\<close>), so it is a map from the booking id.\<close>

record InitiateBody =
  bodyBookingId :: string
  bodyMethod :: PaymentMethod
  bodyPhone :: "string option"

text \<open>\<open>booking.finalPrice || booking.estimatedPrice\<close>\<close>

definition bookingAmount :: "Booking \<Rightarrow> real option" where
  "bookingAmount booking =
     (if falsyNumber (finalPrice booking) then estimatedPrice booking else finalPrice booking)"

definition paymentUpsert :: "db \<Rightarrow> ident \<Rightarrow> real \<Rightarrow> PaymentMethod \<Rightarrow> date \<Rightarrow> Payment \<times> db" where
  "paymentUpsert d bid a m now =
     (let payment =
        (case payments d bid of
           None \<Rightarrow>
             \<lparr> amount = a, paymentMethod = m,
               paymentStatus = (if m = CASH then PAYMENT_COMPLETED else PAYMENT_PROCESSING),
               paidAt = (if m = CASH then Some now else None) \<rparr>
         | Some old \<Rightarrow>
             old\<lparr> paymentMethod := m,
                  paymentStatus := (if m = CASH then PAYMENT_COMPLETED else PAYMENT_PROCESSING),
                  paidAt := (if m = CASH then Some now else None) \<rparr>)
      in (payment, d\<lparr>payments := (payments d)(bid \<mapsto> payment)\<rparr>))"

definition notifyPaidWorker :: "db \<Rightarrow> ident \<Rightarrow> Booking \<Rightarrow> real \<Rightarrow> db" where
  "notifyPaidWorker d bid booking a =
     (case workerId booking of
        None \<Rightarrow> d
      | Some w \<Rightarrow>
          if w = [] then d
          else
            (case findWorkerById d w of
               None \<Rightarrow> d
             | Some worker \<Rightarrow>
                 notificationCreate d
                   \<lparr> notifyUserId = userId worker, notifyType = ''PAYMENT_RECEIVED'',
                     notifyTitle = ''Payment Received'',
                     notifyBody = WithAmount ''Cash payment of GHS '' a '' confirmed'',
                     notifyBookingId = bid \<rparr>))"

text \<open>The upsert comes before the phone check of the mobile-money branches, so a
  request that fails with \<open>PHONE_REQUIRED\<close> has already written the payment: the
  database returned with that error is the updated one.\<close>

definition postInitiate ::
  "db \<Rightarrow> AuthUser \<Rightarrow> InitiateBody \<Rightarrow> date \<Rightarrow> (error + Payment) \<times> db" where
  "postInitiate d user body now =
     (case bookings d (bodyBookingId body) of
        None \<Rightarrow> (Inl (AppError 404 ''Booking not found'' ''NOT_FOUND''), d)
      | Some booking \<Rightarrow>
          if customerId booking \<noteq> uid user then
            (Inl (AppError 403 ''Not your booking'' ''FORBIDDEN''), d)
          else if status booking \<noteq> COMPLETED then
            (Inl (AppError 400 ''Booking is not completed yet'' ''NOT_COMPLETED''), d)
          else if (case payments d (bodyBookingId body) of
                     None \<Rightarrow> False
                   | Some p \<Rightarrow> paymentStatus p = PAYMENT_COMPLETED) then
            (Inl (AppError 400 ''Payment already completed'' ''ALREADY_PAID''), d)
          else
            (case bookingAmount booking of
               None \<Rightarrow> (Inl (AppError 400 ''No price set for booking'' ''NO_PRICE''), d)
             | Some a \<Rightarrow>
                 if a = 0 then (Inl (AppError 400 ''No price set for booking'' ''NO_PRICE''), d)
                 else
                   (case paymentUpsert d (bodyBookingId body) a (bodyMethod body) now of
                      (payment, d') \<Rightarrow>
                        if bodyMethod body = CASH then
                          (Inr payment, notifyPaidWorker d' (bodyBookingId body) booking a)
                        else if falsyString (bodyPhone body) then
                          (Inl (AppError 400 ''Phone number required for mobile money''
                                  ''PHONE_REQUIRED''), d')
                        else (Inr payment, d'))))"

section \<open>Requests in flight\<close>

text \<open>The five routes above are the only ones that write the booking or the payment
  table on a request (the payment webhook apart, which writes payments only); a
  request is one of them with its arguments.\<close>

datatype request =
  PostBooking AuthUser CreateBody ident date
  | PatchBookingStatus AuthUser ident StatusBody date
  | PostAccept AuthUser ident
  | AdminCancel ident
  | PostInitiate AuthUser InitiateBody date

text \<open>
  A handler is an \<open>async\<close> function: it runs until its next \<open>await\<close>, the database
  executes the awaited query or write as one step, and other handlers run in between.
  No handler opens a transaction, and every update is keyed by the row's id alone. A
  request in flight is therefore a handler stopped at an \<open>await\<close>, with the values it
  has read so far. There is one constructor for each \<open>await\<close> of the five handlers
  (conversation writes left out, as above), named after the query or write awaited.
\<close>

datatype thread =
  PatchRead AuthUser ident StatusData date
  | PatchWorkerRead AuthUser ident Booking StatusData date
  | PatchUpdate ident Booking StatusData "ident option" date
  | PatchNotify ident Booking Booking StatusData
  | AcceptWorkerRead AuthUser ident
  | AcceptBookingRead ident Worker
  | AcceptServiceRead ident Worker Booking
  | AcceptUpdate ident Worker Booking WorkerService
  | AcceptNotify ident Booking Booking
  | CreateCategoryRead AuthUser CreateBody ident date
  | CreateServiceRead AuthUser CreateBody ident date ServiceCategory
  | CreateWrite AuthUser CreateBody ident date ServiceCategory "real option"
  | CreateNotify ident Booking ServiceCategory Worker
  | CancelUpdate ident
  | CancelWorkerRead ident Booking ident
  | CancelNotifyWorker ident Booking Worker
  | CancelNotifyCustomer ident Booking
  | InitiateRead AuthUser InitiateBody date
  | InitiateUpsert InitiateBody Booking real date
  | InitiateWorkerRead ident real Payment ident
  | InitiateNotify ident real Payment Worker

datatype response = BookingResponse Booking | PaymentResponse Payment

datatype outcome = Continue thread | Respond "error + response"

text \<open>The synchronous start of a handler, up to its first \<open>await\<close>: the schema parse
  of the body, and the \<open>authorize('WORKER')\<close> middleware of the accept route.\<close>

fun start :: "request \<Rightarrow> thread + (error + response)" where
  "start (PatchBookingStatus user bid body now) =
     (case updateBookingStatusSchema body of
        None \<Rightarrow> Inr (Inl ZodError)
      | Some dat \<Rightarrow> Inl (PatchRead user bid dat now))"
| "start (PostAccept user bid) =
     (if role user \<noteq> WORKER then Inr (Inl (AppError 403 ''Insufficient permissions'' ''FORBIDDEN''))
      else Inl (AcceptWorkerRead user bid))"
| "start (PostBooking user body newId now) =
     (if \<not> createBookingSchema body then Inr (Inl ZodError)
      else Inl (CreateCategoryRead user body newId now))"
| "start (AdminCancel bid) = Inl (CancelUpdate bid)"
| "start (PostInitiate user body now) = Inl (InitiateRead user body now)"

text \<open>The row \<open>prisma.booking.create\<close> is given.\<close>

definition newBooking :: "AuthUser \<Rightarrow> CreateBody \<Rightarrow> real option \<Rightarrow> date \<Rightarrow> Booking" where
  "newBooking user body estimated now =
     \<lparr> customerId = uid user,
       workerId = bodyWorkerId body,
       categoryId = bodyCategoryId body,
       description = bodyDescription body,
       latitude = bodyLatitude body,
       longitude = bodyLongitude body,
       address = bodyAddress body,
       status = (if falsyString (bodyWorkerId body) then PENDING else PENDING),
       estimatedPrice = estimated,
       finalPrice = None,
       scheduledAt = (case bodyScheduledAt body of IsoDatetime t \<Rightarrow> Some t | _ \<Rightarrow> None),
       startedAt = None,
       completedAt = None,
       createdAt = now \<rparr>"

definition cancelUpdateData :: BookingUpdate where
  "cancelUpdateData =
     \<lparr> setStatus = Some CANCELLED, setWorkerId = None, setEstimatedPrice = None,
       setFinalPrice = None, setStartedAt = None, setCompletedAt = None \<rparr>"

text \<open>One step: the awaited query or write on the database as it is now, then the
  handler's code up to its next \<open>await\<close>, its \<open>throw\<close> or its response.\<close>

fun act :: "db \<Rightarrow> thread \<Rightarrow> db \<times> outcome" where
  "act d (PatchRead user bid dat now) =
     (case bookings d bid of
        None \<Rightarrow> (d, Respond (Inl (AppError 404 ''Booking not found'' ''NOT_FOUND'')))
      | Some booking \<Rightarrow>
          let isWorker =
                (case bookingWorker d booking of
                   None \<Rightarrow> False
                 | Some w \<Rightarrow> userId w = uid user);
              isCustomer = (customerId booking = uid user)
          in
          if \<not> transitionAllowed (status booking) (dataStatus dat) then
            (d, Respond (Inl (invalidTransition (status booking) (dataStatus dat))))
          else if dataStatus dat = CANCELLED \<and> \<not> isWorker \<and> \<not> isCustomer then
            (d, Respond (Inl (AppError 403 ''Only customer or worker can cancel'' ''FORBIDDEN'')))
          else if dataStatus dat \<noteq> CANCELLED \<and> \<not> isWorker then
            (d, Respond (Inl (AppError 403 ''Only worker can update status'' ''FORBIDDEN'')))
          else if dataStatus dat = ACCEPTED \<and> falsyString (workerId booking) then
            (d, Continue (PatchWorkerRead user bid booking dat now))
          else (d, Continue (PatchUpdate bid booking dat None now)))"
| "act d (PatchWorkerRead user bid booking dat now) =
     (case findWorkerByUserId d (uid user) of
        None \<Rightarrow> (d, Respond (Inl (AppError 400 ''Worker profile not found'' ''NOT_WORKER'')))
      | Some worker \<Rightarrow> (d, Continue (PatchUpdate bid booking dat (Some (workerKey worker)) now)))"
| "act d (PatchUpdate bid booking dat w now) =
     (case bookingUpdate d bid (statusUpdateData dat w now) of
        (Inl e, d') \<Rightarrow> (d', Respond (Inl e))
      | (Inr updatedBooking, d') \<Rightarrow>
          (case notificationTypes (dataStatus dat) of
             None \<Rightarrow> (d', Respond (Inr (BookingResponse updatedBooking)))
           | Some notif \<Rightarrow> (d', Continue (PatchNotify bid booking updatedBooking dat))))"
| "act d (PatchNotify bid booking updatedBooking dat) =
     (notifyCustomer d bid booking (dataStatus dat),
      Respond (Inr (BookingResponse updatedBooking)))"
| "act d (AcceptWorkerRead user bid) =
     (case findWorkerByUserId d (uid user) of
        None \<Rightarrow> (d, Respond (Inl (AppError 403 ''Worker not verified'' ''NOT_VERIFIED'')))
      | Some worker \<Rightarrow>
          if verificationStatus worker \<noteq> VERIFIED then
            (d, Respond (Inl (AppError 403 ''Worker not verified'' ''NOT_VERIFIED'')))
          else (d, Continue (AcceptBookingRead bid worker)))"
| "act d (AcceptBookingRead bid worker) =
     (case bookings d bid of
        None \<Rightarrow> (d, Respond (Inl (AppError 404 ''Booking not found'' ''NOT_FOUND'')))
      | Some booking \<Rightarrow>
          if status booking \<noteq> PENDING then
            (d, Respond (Inl (AppError 400 ''Booking is not available'' ''NOT_AVAILABLE'')))
          else (d, Continue (AcceptServiceRead bid worker booking)))"
| "act d (AcceptServiceRead bid worker booking) =
     (case findWorkerService d (workerKey worker) (categoryId booking) of
        None \<Rightarrow>
          (d, Respond (Inl (AppError 400 ''You do not offer this service'' ''SERVICE_NOT_OFFERED'')))
      | Some workerService \<Rightarrow> (d, Continue (AcceptUpdate bid worker booking workerService)))"
| "act d (AcceptUpdate bid worker booking workerService) =
     (case bookingUpdate d bid (acceptUpdateData worker workerService) of
        (Inl e, d') \<Rightarrow> (d', Respond (Inl e))
      | (Inr updatedBooking, d') \<Rightarrow> (d', Continue (AcceptNotify bid booking updatedBooking)))"
| "act d (AcceptNotify bid booking updatedBooking) =
     (notificationCreate d
        \<lparr> notifyUserId = customerId booking, notifyType = ''BOOKING_ACCEPTED'',
          notifyTitle = ''Booking Accepted'',
          notifyBody = Literal ''A worker has accepted your service request'',
          notifyBookingId = bid \<rparr>,
      Respond (Inr (BookingResponse updatedBooking)))"
| "act d (CreateCategoryRead user body newId now) =
     (case find (\<lambda>c. categoryKey c = bodyCategoryId body) (serviceCategories d) of
        None \<Rightarrow> (d, Respond (Inl (AppError 404 ''Service category not found'' ''NOT_FOUND'')))
      | Some category \<Rightarrow>
          if falsyString (bodyWorkerId body) then
            (d, Continue (CreateWrite user body newId now category None))
          else (d, Continue (CreateServiceRead user body newId now category)))"
| "act d (CreateServiceRead user body newId now category) =
     (case requestedWorkerPrice d body of
        Inl e \<Rightarrow> (d, Respond (Inl e))
      | Inr estimated \<Rightarrow> (d, Continue (CreateWrite user body newId now category estimated)))"
| "act d (CreateWrite user body newId now category estimated) =
     (case bookingCreate d newId (newBooking user body estimated now) of
        (Inl e, d') \<Rightarrow> (d', Respond (Inl e))
      | (Inr booking, d') \<Rightarrow>
          if falsyString (bodyWorkerId body) then (d', Respond (Inr (BookingResponse booking)))
          else
            (case bookingWorker d' booking of
               None \<Rightarrow> (d', Respond (Inr (BookingResponse booking)))
             | Some w \<Rightarrow> (d', Continue (CreateNotify newId booking category w))))"
| "act d (CreateNotify newId booking category w) =
     (notificationCreate d
        \<lparr> notifyUserId = userId w, notifyType = ''BOOKING_REQUEST'',
          notifyTitle = ''New Booking Request'',
          notifyBody = Literal (''New '' @ categoryName category @ '' service request''),
          notifyBookingId = newId \<rparr>,
      Respond (Inr (BookingResponse booking)))"
| "act d (CancelUpdate bid) =
     (case bookingUpdate d bid cancelUpdateData of
        (Inl e, d') \<Rightarrow> (d', Respond (Inl e))
      | (Inr booking, d') \<Rightarrow>
          (case workerId booking of
             None \<Rightarrow> (d', Continue (CancelNotifyCustomer bid booking))
           | Some w \<Rightarrow>
               if w = [] then (d', Continue (CancelNotifyCustomer bid booking))
               else (d', Continue (CancelWorkerRead bid booking w))))"
| "act d (CancelWorkerRead bid booking w) =
     (case findWorkerById d w of
        None \<Rightarrow> (d, Continue (CancelNotifyCustomer bid booking))
      | Some worker \<Rightarrow> (d, Continue (CancelNotifyWorker bid booking worker)))"
| "act d (CancelNotifyWorker bid booking worker) =
     (notificationCreate d
        \<lparr> notifyUserId = userId worker, notifyType = ''BOOKING_CANCELLED'',
          notifyTitle = ''Booking Cancelled'',
          notifyBody = Literal ''A booking has been cancelled by admin.'',
          notifyBookingId = bid \<rparr>,
      Continue (CancelNotifyCustomer bid booking))"
| "act d (CancelNotifyCustomer bid booking) =
     (notificationCreate d
        \<lparr> notifyUserId = customerId booking, notifyType = ''BOOKING_CANCELLED'',
          notifyTitle = ''Booking Cancelled'',
          notifyBody = Literal ''Your booking has been cancelled.'',
          notifyBookingId = bid \<rparr>,
      Respond (Inr (BookingResponse booking)))"
| "act d (InitiateRead user body now) =
     (case bookings d (bodyBookingId body) of
        None \<Rightarrow> (d, Respond (Inl (AppError 404 ''Booking not found'' ''NOT_FOUND'')))
      | Some booking \<Rightarrow>
          if customerId booking \<noteq> uid user then
            (d, Respond (Inl (AppError 403 ''Not your booking'' ''FORBIDDEN'')))
          else if status booking \<noteq> COMPLETED then
            (d, Respond (Inl (AppError 400 ''Booking is not completed yet'' ''NOT_COMPLETED'')))
          else if (case payments d (bodyBookingId body) of
                     None \<Rightarrow> False
                   | Some p \<Rightarrow> paymentStatus p = PAYMENT_COMPLETED) then
            (d, Respond (Inl (AppError 400 ''Payment already completed'' ''ALREADY_PAID'')))
          else
            (case bookingAmount booking of
               None \<Rightarrow> (d, Respond (Inl (AppError 400 ''No price set for booking'' ''NO_PRICE'')))
             | Some a \<Rightarrow>
                 if a = 0 then
                   (d, Respond (Inl (AppError 400 ''No price set for booking'' ''NO_PRICE'')))
                 else (d, Continue (InitiateUpsert body booking a now))))"
| "act d (InitiateUpsert body booking a now) =
     (case paymentUpsert d (bodyBookingId body) a (bodyMethod body) now of
        (payment, d') \<Rightarrow>
          if bodyMethod body = CASH then
            (case workerId booking of
               None \<Rightarrow> (d', Respond (Inr (PaymentResponse payment)))
             | Some w \<Rightarrow>
                 if w = [] then (d', Respond (Inr (PaymentResponse payment)))
                 else (d', Continue (InitiateWorkerRead (bodyBookingId body) a payment w)))
          else if falsyString (bodyPhone body) then
            (d', Respond (Inl (AppError 400 ''Phone number required for mobile money''
                                 ''PHONE_REQUIRED'')))
          else (d', Respond (Inr (PaymentResponse payment))))"
| "act d (InitiateWorkerRead bid a payment w) =
     (case findWorkerById d w of
        None \<Rightarrow> (d, Respond (Inr (PaymentResponse payment)))
      | Some worker \<Rightarrow> (d, Continue (InitiateNotify bid a payment worker)))"
| "act d (InitiateNotify bid a payment worker) =
     (notificationCreate d
        \<lparr> notifyUserId = userId worker, notifyType = ''PAYMENT_RECEIVED'',
          notifyTitle = ''Payment Received'',
          notifyBody = WithAmount ''Cash payment of GHS '' a '' confirmed'',
          notifyBookingId = bid \<rparr>,
      Respond (Inr (PaymentResponse payment)))"

text \<open>A schedule is a list of events: a request arrives, or the database executes the
  step awaited by the request at a position of the list of requests in flight. A
  request that has responded or thrown leaves the list.\<close>

datatype event = Arrive request | Run nat

fun perform :: "db \<times> thread list \<Rightarrow> event \<Rightarrow> db \<times> thread list" where
  "perform (d, ts) (Arrive r) =
     (case start r of Inl t \<Rightarrow> (d, ts @ [t]) | Inr res \<Rightarrow> (d, ts))"
| "perform (d, ts) (Run i) =
     (if i < length ts then
        (case act d (ts ! i) of
           (d', Continue t) \<Rightarrow> (d', ts[i := t])
         | (d', Respond res) \<Rightarrow> (d', take i ts @ drop (Suc i) ts))
      else (d, ts))"

fun execute :: "db \<times> thread list \<Rightarrow> event list \<Rightarrow> db \<times> thread list" where
  "execute c [] = c"
| "execute c (e # es) = execute (perform c e) es"

text \<open>A request served with nothing in between: its steps one after another, at most
  \<open>n\<close> of them.\<close>

fun alone :: "nat \<Rightarrow> db \<Rightarrow> thread \<Rightarrow> ((error + response) \<times> db) option" where
  "alone 0 d t = None"
| "alone (Suc n) d t =
     (case act d t of
        (d', Respond res) \<Rightarrow> Some (res, d')
      | (d', Continue t') \<Rightarrow> alone n d' t')"

definition served :: "db \<Rightarrow> request \<Rightarrow> ((error + response) \<times> db) option" where
  "served d r = (case start r of Inr res \<Rightarrow> Some (res, d) | Inl t \<Rightarrow> alone 5 d t)"

text \<open>The booking update a request in flight has next, if that is its next step.\<close>

fun bookingWrite :: "thread \<Rightarrow> (ident \<times> BookingUpdate) option" where
  "bookingWrite (PatchUpdate b booking dat w now) = Some (b, statusUpdateData dat w now)"
| "bookingWrite (AcceptUpdate b worker booking workerService) =
     Some (b, acceptUpdateData worker workerService)"
| "bookingWrite (CancelUpdate b) = Some (b, cancelUpdateData)"
| "bookingWrite t = None"

text \<open>A request in flight that has read the booking \<open>bid\<close> and has an update of it
  ahead: a status update past its read of the booking, an accept past its read of the
  booking.\<close>

fun holdsUpdate :: "ident \<Rightarrow> thread \<Rightarrow> bool" where
  "holdsUpdate bid (PatchWorkerRead user b booking dat now) = (b = bid)"
| "holdsUpdate bid (PatchUpdate b booking dat w now) = (b = bid)"
| "holdsUpdate bid (AcceptServiceRead b worker booking) = (b = bid)"
| "holdsUpdate bid (AcceptUpdate b worker booking workerService) = (b = bid)"
| "holdsUpdate bid t = False"

text \<open>A request in flight whose next step writes a \<open>workerId\<close>.\<close>

fun writesWorker :: "thread \<Rightarrow> bool" where
  "writesWorker (PatchUpdate b booking dat w now) = (w \<noteq> None)"
| "writesWorker (AcceptUpdate b worker booking workerService) = True"
| "writesWorker t = False"

text \<open>Invariants of the requests in flight, used in the proofs: \<open>quietFor bid t\<close> says
  that \<open>t\<close> will neither write the \<open>workerId\<close> of the booking \<open>bid\<close> nor set it PENDING;
  \<open>backed d t\<close> says that a status update about to write a status other than CANCELLED
  writes a worker too or has a row with a worker to write to.\<close>

fun quietFor :: "ident \<Rightarrow> thread \<Rightarrow> bool" where
  "quietFor bid (PatchWorkerRead user b booking dat now) = (b \<noteq> bid)"
| "quietFor bid (PatchUpdate b booking dat w now) =
     (b = bid \<longrightarrow> w = None \<and> dataStatus dat \<noteq> PENDING)"
| "quietFor bid (AcceptServiceRead b worker booking) = (b \<noteq> bid)"
| "quietFor bid (AcceptUpdate b worker booking workerService) = (b \<noteq> bid)"
| "quietFor bid t = True"

fun backed :: "db \<Rightarrow> thread \<Rightarrow> bool" where
  "backed d (PatchUpdate b booking dat w now) =
     (dataStatus dat = CANCELLED \<or> w \<noteq> None \<or>
      (case bookings d b of None \<Rightarrow> False | Some x \<Rightarrow> workerId x \<noteq> None))"
| "backed d t = True"

text \<open>Accept requests of several users for one booking on the schedule in which every
  handler has finished its reads before the first of them writes: the reads all see the
  database \<open>d\<close>, the writes follow in order.\<close>

fun acceptWritesInTurn ::
  "db \<Rightarrow> ident \<Rightarrow> (error + Worker \<times> Booking \<times> WorkerService) list \<Rightarrow>
     (error + Booking) list \<times> db" where
  "acceptWritesInTurn d bid [] = ([], d)"
| "acceptWritesInTurn d bid (Inl e # rs) =
     (case acceptWritesInTurn d bid rs of (ress, d') \<Rightarrow> (Inl e # ress, d'))"
| "acceptWritesInTurn d bid (Inr r # rs) =
     (case acceptWrites d bid r of
        (res, d') \<Rightarrow>
          (case acceptWritesInTurn d' bid rs of (ress, d'') \<Rightarrow> (res # ress, d'')))"

definition acceptOverlapped :: "db \<Rightarrow> AuthUser list \<Rightarrow> ident \<Rightarrow> (error + Booking) list \<times> db" where
  "acceptOverlapped d users bid =
     acceptWritesInTurn d bid (map (\<lambda>user. acceptReads d user bid) users)"

section \<open>Sample data\<close>

text \<open>A plumbing category, two verified workers who offer it, one customer, an
  administrator, and bookings of the customer in several states.\<close>

definition kofi :: Worker where
  "kofi = \<lparr> workerKey = ''w1'', userId = ''u-kofi'', verificationStatus = VERIFIED \<rparr>"

definition ama :: Worker where
  "ama = \<lparr> workerKey = ''w2'', userId = ''u-ama'', verificationStatus = VERIFIED \<rparr>"

definition kofiUser :: AuthUser where
  "kofiUser = \<lparr> uid = ''u-kofi'', role = WORKER \<rparr>"

definition amaUser :: AuthUser where
  "amaUser = \<lparr> uid = ''u-ama'', role = WORKER \<rparr>"

definition customerUser :: AuthUser where
  "customerUser = \<lparr> uid = ''u-esi'', role = CUSTOMER \<rparr>"

definition adminUser :: AuthUser where
  "adminUser = \<lparr> uid = ''u-admin'', role = ADMIN \<rparr>"

definition sinkRepair :: "BookingStatus \<Rightarrow> ident option \<Rightarrow> Booking" where
  "sinkRepair s w =
     \<lparr> customerId = ''u-esi'', workerId = w, categoryId = ''plumbing'',
       description = ''Kitchen sink is leaking. Need urgent repair.'',
       latitude = 5, longitude = 0, address = ''Osu, Accra'',
       status = s, estimatedPrice = Some 50, finalPrice = None,
       scheduledAt = None, startedAt = None, completedAt = None, createdAt = 1000 \<rparr>"

definition sampleDb :: "BookingStatus \<Rightarrow> ident option \<Rightarrow> db" where
  "sampleDb s w =
     \<lparr> bookings = [''b1'' \<mapsto> sinkRepair s w],
       workers = [kofi, ama],
       workerServices =
         [\<lparr> serviceWorkerId = ''w1'', serviceCategoryId = ''plumbing'', isActive = True,
            basePrice = 50 \<rparr>,
          \<lparr> serviceWorkerId = ''w2'', serviceCategoryId = ''plumbing'', isActive = True,
            basePrice = 60 \<rparr>],
       serviceCategories = [\<lparr> categoryKey = ''plumbing'', categoryName = ''Plumbing'' \<rparr>],
       payments = Map.empty,
       notifications = [] \<rparr>"

definition statusBody :: "BookingStatus \<Rightarrow> real option \<Rightarrow> StatusBody" where
  "statusBody s p = \<lparr> bodyStatus = statusName s, bodyFinalPrice = p \<rparr>"

section \<open>Helper lemmas\<close>

lemma transitionAllowed_table:
  "transitionAllowed s t \<longleftrightarrow> (s, t) \<in> set transitionTable"
  by (cases s; cases t) (simp_all add: transitionAllowed_def transitionTable_def)

lemma schema_Some:
  "updateBookingStatusSchema body = Some dat \<Longrightarrow>
     dataStatus dat \<noteq> PENDING \<and> bodyStatus body = statusName (dataStatus dat) \<and>
     dataFinalPrice dat = bodyFinalPrice body \<and> (\<forall>p. bodyFinalPrice body = Some p \<longrightarrow> 0 < p)"
  by (auto simp: updateBookingStatusSchema_def statusEnum_def split: option.splits if_splits)

lemma schema_statusBody:
  "s \<noteq> PENDING \<Longrightarrow>
     updateBookingStatusSchema (statusBody s None) = Some \<lparr>dataStatus = s, dataFinalPrice = None\<rparr>"
  by (cases s) (simp_all add: updateBookingStatusSchema_def statusEnum_def statusBody_def invalidTransition_def)

lemma notificationCreate_tables [simp]:
  "bookings (notificationCreate d n) = bookings d"
  "workers (notificationCreate d n) = workers d"
  "workerServices (notificationCreate d n) = workerServices d"
  "payments (notificationCreate d n) = payments d"
  by (simp_all add: notificationCreate_def)

lemma notifyCustomer_tables [simp]:
  "bookings (notifyCustomer d bid b t) = bookings d"
  "workers (notifyCustomer d bid b t) = workers d"
  "workerServices (notifyCustomer d bid b t) = workerServices d"
  "payments (notifyCustomer d bid b t) = payments d"
  by (simp_all add: notifyCustomer_def split: option.splits prod.splits)

lemma patch_cases:
  assumes "patchBookingStatus d user bid body now = (res, d')"
  shows "(\<exists>e. res = Inl e \<and> d' = d) \<or>
     (\<exists>b dat w. bookings d bid = Some b \<and> updateBookingStatusSchema body = Some dat \<and>
        transitionAllowed (status b) (dataStatus dat) \<and>
        (if dataStatus dat = CANCELLED
         then (\<exists>x. bookingWorker d b = Some x \<and> userId x = uid user) \<or> customerId b = uid user
         else (\<exists>x. bookingWorker d b = Some x \<and> userId x = uid user)) \<and>
        openBookingWorker d user b (dataStatus dat) = Inr w \<and>
        res = Inr (applyUpdate (statusUpdateData dat w now) b) \<and>
        d' = notifyCustomer
               (d\<lparr>bookings := (bookings d)(bid \<mapsto> applyUpdate (statusUpdateData dat w now) b)\<rparr>)
               bid b (dataStatus dat))"
  using assms
  by (auto simp: patchBookingStatus_def bookingUpdate_def Let_def
      split: option.splits sum.splits if_splits)

section \<open>The transition table\<close>

text \<open>
  C1. For an existing booking and a request body that the schema accepts (a target
  among ACCEPTED, WORKER_EN_ROUTE, IN_PROGRESS, COMPLETED, CANCELLED and a final price
  that is absent or positive), a pair (current status, target status) outside the
  transition table makes the status update fail with the 400 error
  \<open>INVALID_STATUS_TRANSITION\<close>, whose message names the current and the attempted
  status, and the database is returned as it was.
\<close>

theorem invalid_transition_rejected:
  assumes "bookings d bid = Some b"
    and "updateBookingStatusSchema body = Some dat"
    and "(status b, dataStatus dat) \<notin> set transitionTable"
  shows "patchBookingStatus d user bid body now =
           (Inl (AppError 400
                  (''Cannot transition from '' @ statusName (status b) @ '' to '' @
                     statusName (dataStatus dat))
                  ''INVALID_STATUS_TRANSITION''), d)"
  using assms
  by (simp add: patchBookingStatus_def transitionAllowed_table invalidTransition_def Let_def)

theorem invalid_transition_rejected_witness:
  "patchBookingStatus (sampleDb ACCEPTED (Some ''w1'')) kofiUser ''b1''
       (statusBody COMPLETED None) 5 =
     (Inl (AppError 400 ''Cannot transition from ACCEPTED to COMPLETED''
            ''INVALID_STATUS_TRANSITION''), sampleDb ACCEPTED (Some ''w1''))"
proof -
  have b: "bookings (sampleDb ACCEPTED (Some ''w1'')) ''b1'' = Some (sinkRepair ACCEPTED (Some ''w1''))"
    by (simp add: sampleDb_def)
  have s: "updateBookingStatusSchema (statusBody COMPLETED None) =
             Some \<lparr>dataStatus = COMPLETED, dataFinalPrice = None\<rparr>"
    by (simp add: schema_statusBody)
  have t: "(status (sinkRepair ACCEPTED (Some ''w1'')),
            dataStatus \<lparr>dataStatus = COMPLETED, dataFinalPrice = None\<rparr>) \<notin> set transitionTable"
    by (simp add: sinkRepair_def transitionTable_def)
  show ?thesis
    using invalid_transition_rejected [OF b s t, of kofiUser 5]
    by (simp add: sinkRepair_def)
qed

text \<open>The pair (ACCEPTED, PENDING) is outside the table, yet a request for it is
  turned away by the schema, before the table is looked at.\<close>

theorem pending_target_fails_validation:
  "(ACCEPTED, PENDING) \<notin> set transitionTable \<and>
   bookings (sampleDb ACCEPTED (Some ''w1'')) ''b1'' = Some (sinkRepair ACCEPTED (Some ''w1'')) \<and>
   fst (patchBookingStatus (sampleDb ACCEPTED (Some ''w1'')) kofiUser ''b1''
          (statusBody PENDING None) 5) = Inl ZodError \<and>
   fst (patchBookingStatus (sampleDb ACCEPTED (Some ''w1'')) kofiUser ''b1''
          (statusBody PENDING None) 5) \<noteq> Inl (invalidTransition ACCEPTED PENDING)"
  by (simp add: transitionTable_def sampleDb_def patchBookingStatus_def
      updateBookingStatusSchema_def statusEnum_def statusBody_def invalidTransition_def)


section \<open>Who may move a booking\<close>

text \<open>
  C6. For an existing booking, a body the schema accepts and a pair in the transition
  table: a transition to CANCELLED succeeds when the caller is the booking's customer
  or the user of its assigned worker, every other transition succeeds when the caller
  is the user of the assigned worker (the response is the booking with the target
  status, and that booking is the stored row), and in every other case the request
  fails with the 403 error \<open>FORBIDDEN\<close> and changes nothing. The caller's role is not consulted:
  an administrator has no bypass on this endpoint.
\<close>

theorem status_update_permission:
  assumes "bookings d bid = Some b"
    and "updateBookingStatusSchema body = Some dat"
    and "(status b, dataStatus dat) \<in> set transitionTable"
  shows "(if (\<exists>w. bookingWorker d b = Some w \<and> userId w = uid user) \<or>
             (dataStatus dat = CANCELLED \<and> customerId b = uid user)
          then \<exists>b'. fst (patchBookingStatus d user bid body now) = Inr b' \<and>
                 status b' = dataStatus dat \<and>
                 bookings (snd (patchBookingStatus d user bid body now)) bid = Some b'
          else \<exists>msg. patchBookingStatus d user bid body now =
                 (Inl (AppError 403 msg ''FORBIDDEN''), d))"
proof (cases "\<exists>w. bookingWorker d b = Some w \<and> userId w = uid user")
  case True
  then obtain w where w: "bookingWorker d b = Some w" "userId w = uid user" by blast
  then obtain k where k: "workerId b = Some k" "findWorkerById d k = Some w"
    by (auto simp: bookingWorker_def split: option.splits)
  from k(2) have "w \<in> set (workers d)"
    by (auto simp: findWorkerById_def find_Some_iff)
  with w(2) have "findWorkerByUserId d (uid user) \<noteq> None"
    by (auto simp: findWorkerByUserId_def find_None_iff)
  then have "\<exists>x. openBookingWorker d user b (dataStatus dat) = Inr x"
    by (cases "findWorkerByUserId d (uid user)") (simp_all add: openBookingWorker_def)
  then obtain x where "openBookingWorker d user b (dataStatus dat) = Inr x" ..
  with True assms w show ?thesis
    by (simp add: patchBookingStatus_def transitionAllowed_table Let_def bookingUpdate_def
        applyUpdate_def statusUpdateData_def)
next
  case False
  with assms show ?thesis
    by (auto simp: patchBookingStatus_def transitionAllowed_table Let_def bookingUpdate_def
        applyUpdate_def statusUpdateData_def openBookingWorker_def falsyString_def
        split: option.splits)
qed

theorem status_update_permission_witness:
  "(\<exists>b'. fst (patchBookingStatus (sampleDb ACCEPTED (Some ''w1'')) kofiUser ''b1''
                (statusBody WORKER_EN_ROUTE None) 5) = Inr b' \<and> status b' = WORKER_EN_ROUTE \<and>
         bookings (snd (patchBookingStatus (sampleDb ACCEPTED (Some ''w1'')) kofiUser ''b1''
                (statusBody WORKER_EN_ROUTE None) 5)) ''b1'' = Some b') \<and>
   (\<exists>msg. patchBookingStatus (sampleDb ACCEPTED (Some ''w1'')) customerUser ''b1''
                (statusBody WORKER_EN_ROUTE None) 5 =
             (Inl (AppError 403 msg ''FORBIDDEN''), sampleDb ACCEPTED (Some ''w1'')))"
proof -
  have b: "bookings (sampleDb ACCEPTED (Some ''w1'')) ''b1'' = Some (sinkRepair ACCEPTED (Some ''w1''))"
    by (simp add: sampleDb_def)
  have s: "updateBookingStatusSchema (statusBody WORKER_EN_ROUTE None) =
             Some \<lparr>dataStatus = WORKER_EN_ROUTE, dataFinalPrice = None\<rparr>"
    by (simp add: schema_statusBody)
  have t: "(status (sinkRepair ACCEPTED (Some ''w1'')),
            dataStatus \<lparr>dataStatus = WORKER_EN_ROUTE, dataFinalPrice = None\<rparr>) \<in> set transitionTable"
    by (simp add: sinkRepair_def transitionTable_def)
  have w: "bookingWorker (sampleDb ACCEPTED (Some ''w1'')) (sinkRepair ACCEPTED (Some ''w1'')) = Some kofi"
    by (simp add: bookingWorker_def sinkRepair_def findWorkerById_def sampleDb_def kofi_def)
  show ?thesis
    using status_update_permission [OF b s t, of kofiUser 5]
      status_update_permission [OF b s t, of customerUser 5] w
    by (simp add: kofi_def kofiUser_def customerUser_def sinkRepair_def)
qed

text \<open>An administrator who asks for ACCEPTED to WORKER_EN_ROUTE, a pair of the table, is
  refused like any caller who is not the assigned worker.\<close>

theorem admin_has_no_bypass:
  "(ACCEPTED, WORKER_EN_ROUTE) \<in> set transitionTable \<and> role adminUser = ADMIN \<and>
   patchBookingStatus (sampleDb ACCEPTED (Some ''w1'')) adminUser ''b1''
       (statusBody WORKER_EN_ROUTE None) 5 =
     (Inl (AppError 403 ''Only worker can update status'' ''FORBIDDEN''),
      sampleDb ACCEPTED (Some ''w1''))"
  by (simp add: transitionTable_def adminUser_def patchBookingStatus_def schema_statusBody
      sampleDb_def sinkRepair_def transitionAllowed_def bookingWorker_def findWorkerById_def
      kofi_def ama_def)

section \<open>The final price\<close>

text \<open>
  C7. A status update with a final price that is not positive fails with the schema's
  validation error and changes nothing. Whatever the request, a booking's stored
  \<open>finalPrice\<close> differs after it only for the booking addressed, only when the target
  is COMPLETED and a positive final price was supplied, and it is then that price; a
  final price sent with another target is ignored. A successful update to COMPLETED
  with a final price stores it.
\<close>

theorem final_price_only_on_completion:
  "(\<forall>p. bodyFinalPrice body = Some p \<longrightarrow> p \<le> 0 \<longrightarrow>
        patchBookingStatus d user bid body now = (Inl ZodError, d)) \<and>
   (\<forall>i x x'. bookings d i = Some x \<longrightarrow>
        bookings (snd (patchBookingStatus d user bid body now)) i = Some x' \<longrightarrow>
        finalPrice x' \<noteq> finalPrice x \<longrightarrow>
        i = bid \<and> bodyStatus body = statusName COMPLETED \<and>
        (\<exists>p. bodyFinalPrice body = Some p \<and> 0 < p \<and> finalPrice x' = Some p)) \<and>
   (\<forall>b' p. fst (patchBookingStatus d user bid body now) = Inr b' \<longrightarrow>
        bodyStatus body = statusName COMPLETED \<longrightarrow> bodyFinalPrice body = Some p \<longrightarrow>
        finalPrice b' = Some p \<and>
        bookings (snd (patchBookingStatus d user bid body now)) bid = Some b')"
proof -
  have invalid: "\<forall>p. bodyFinalPrice body = Some p \<longrightarrow> p \<le> 0 \<longrightarrow>
        patchBookingStatus d user bid body now = (Inl ZodError, d)"
  proof (intro allI impI)
    fix p :: real
    assume "bodyFinalPrice body = Some p" "p \<le> 0"
    then have "updateBookingStatusSchema body = None"
      by (simp add: updateBookingStatusSchema_def split: option.splits)
    then show "patchBookingStatus d user bid body now = (Inl ZodError, d)"
      by (simp add: patchBookingStatus_def)
  qed
  have changed: "\<forall>i x x'. bookings d i = Some x \<longrightarrow>
        bookings (snd (patchBookingStatus d user bid body now)) i = Some x' \<longrightarrow>
        finalPrice x' \<noteq> finalPrice x \<longrightarrow>
        i = bid \<and> bodyStatus body = statusName COMPLETED \<and>
        (\<exists>p. bodyFinalPrice body = Some p \<and> 0 < p \<and> finalPrice x' = Some p)"
  proof (intro allI impI)
    fix i x x'
    assume x: "bookings d i = Some x"
      and x': "bookings (snd (patchBookingStatus d user bid body now)) i = Some x'"
      and ne: "finalPrice x' \<noteq> finalPrice x"
    obtain res d' where r: "patchBookingStatus d user bid body now = (res, d')"
      by (cases "patchBookingStatus d user bid body now")
    from patch_cases [OF r] x x' ne r
    obtain b dat w where *: "bookings d bid = Some b" "updateBookingStatusSchema body = Some dat"
      "bookings d' = (bookings d)(bid \<mapsto> applyUpdate (statusUpdateData dat w now) b)"
      by auto
    from * x x' ne r have i: "i = bid" and xb: "x = b"
      and xu: "x' = applyUpdate (statusUpdateData dat w now) b"
      by (auto split: if_splits)
    from ne xb xu have c: "dataStatus dat = COMPLETED" "\<not> falsyNumber (dataFinalPrice dat)"
      "finalPrice x' = dataFinalPrice dat"
      by (auto simp: applyUpdate_def statusUpdateData_def split: if_splits option.splits)
    from c(2) obtain p where p: "dataFinalPrice dat = Some p"
      by (auto simp: falsyNumber_def split: option.splits)
    from schema_Some [OF *(2)] p have q: "bodyFinalPrice body = Some p" "0 < p"
      by simp_all
    from schema_Some [OF *(2)] c(1) have "bodyStatus body = statusName COMPLETED"
      by simp
    with q p c(3) i
    show "i = bid \<and> bodyStatus body = statusName COMPLETED \<and>
          (\<exists>p. bodyFinalPrice body = Some p \<and> 0 < p \<and> finalPrice x' = Some p)"
      by simp
  qed
  have stored: "\<forall>b' p. fst (patchBookingStatus d user bid body now) = Inr b' \<longrightarrow>
        bodyStatus body = statusName COMPLETED \<longrightarrow> bodyFinalPrice body = Some p \<longrightarrow>
        finalPrice b' = Some p \<and>
        bookings (snd (patchBookingStatus d user bid body now)) bid = Some b'"
  proof (intro allI impI)
    fix b' p
    assume ok: "fst (patchBookingStatus d user bid body now) = Inr b'"
      and c: "bodyStatus body = statusName COMPLETED" and p: "bodyFinalPrice body = Some p"
    obtain res d' where r: "patchBookingStatus d user bid body now = (res, d')"
      by (cases "patchBookingStatus d user bid body now")
    from patch_cases [OF r] ok r
    obtain b dat w where *: "bookings d bid = Some b" "updateBookingStatusSchema body = Some dat"
      "b' = applyUpdate (statusUpdateData dat w now) b"
      "bookings d' = (bookings d)(bid \<mapsto> applyUpdate (statusUpdateData dat w now) b)"
      by auto
    from schema_Some [OF *(2)] c p have "dataStatus dat = COMPLETED" "dataFinalPrice dat = Some p" "0 < p"
      by (cases "dataStatus dat"; simp)+
    with * r
    show "finalPrice b' = Some p \<and>
          bookings (snd (patchBookingStatus d user bid body now)) bid = Some b'"
      by (simp add: applyUpdate_def statusUpdateData_def falsyNumber_def)
  qed
  from invalid changed stored show ?thesis by (intro conjI)
qed

theorem final_price_only_on_completion_witness:
  "patchBookingStatus (sampleDb IN_PROGRESS (Some ''w1'')) kofiUser ''b1''
       (statusBody COMPLETED (Some (- 1))) 5 = (Inl ZodError, sampleDb IN_PROGRESS (Some ''w1'')) \<and>
   (\<exists>b'. fst (patchBookingStatus (sampleDb IN_PROGRESS (Some ''w1'')) kofiUser ''b1''
                (statusBody COMPLETED (Some 55)) 5) = Inr b' \<and>
         finalPrice b' = Some 55 \<and>
         bookings (snd (patchBookingStatus (sampleDb IN_PROGRESS (Some ''w1'')) kofiUser ''b1''
                (statusBody COMPLETED (Some 55)) 5)) ''b1'' = Some b')"
proof -
  have ok: "\<exists>b'. fst (patchBookingStatus (sampleDb IN_PROGRESS (Some ''w1'')) kofiUser ''b1''
                (statusBody COMPLETED (Some 55)) 5) = Inr b'"
    by (simp add: patchBookingStatus_def updateBookingStatusSchema_def statusEnum_def
        statusBody_def sampleDb_def sinkRepair_def transitionAllowed_def bookingWorker_def
        findWorkerById_def kofi_def ama_def kofiUser_def openBookingWorker_def
        bookingUpdate_def)
  then obtain b' where b': "fst (patchBookingStatus (sampleDb IN_PROGRESS (Some ''w1'')) kofiUser ''b1''
                (statusBody COMPLETED (Some 55)) 5) = Inr b'" ..
  have bad: "patchBookingStatus (sampleDb IN_PROGRESS (Some ''w1'')) kofiUser ''b1''
       (statusBody COMPLETED (Some (- 1))) 5 = (Inl ZodError, sampleDb IN_PROGRESS (Some ''w1''))"
    using final_price_only_on_completion [of "statusBody COMPLETED (Some (- 1))"
        "sampleDb IN_PROGRESS (Some ''w1'')" kofiUser "''b1''" 5,
        THEN conjunct1, rule_format, of "- 1"]
    by (simp add: statusBody_def)
  have good: "finalPrice b' = Some 55 \<and>
         bookings (snd (patchBookingStatus (sampleDb IN_PROGRESS (Some ''w1'')) kofiUser ''b1''
                (statusBody COMPLETED (Some 55)) 5)) ''b1'' = Some b'"
    using final_price_only_on_completion [of "statusBody COMPLETED (Some 55)"
        "sampleDb IN_PROGRESS (Some ''w1'')" kofiUser "''b1''" 5,
        THEN conjunct2, THEN conjunct2, rule_format, of b' 55] b'
    by (simp add: statusBody_def)
  from bad b' good show ?thesis by blast
qed

section \<open>What a status update leaves alone\<close>

text \<open>
  C10. A successful status update writes the addressed booking and no other, and of
  that booking only \<open>status\<close>, \<open>workerId\<close>, \<open>startedAt\<close>, \<open>completedAt\<close> and
  \<open>finalPrice\<close> can differ afterwards: \<open>customerId\<close>, \<open>categoryId\<close>, \<open>description\<close>,
  \<open>latitude\<close>, \<open>longitude\<close>, \<open>address\<close>, \<open>estimatedPrice\<close>, \<open>scheduledAt\<close> and
  \<open>createdAt\<close> are as before.
\<close>

theorem status_update_frame:
  assumes "patchBookingStatus d user bid body now = (Inr b', d')"
  shows "\<exists>b. bookings d bid = Some b \<and> bookings d' bid = Some b' \<and>
           customerId b' = customerId b \<and> categoryId b' = categoryId b \<and>
           description b' = description b \<and> latitude b' = latitude b \<and>
           longitude b' = longitude b \<and> address b' = address b \<and>
           estimatedPrice b' = estimatedPrice b \<and> scheduledAt b' = scheduledAt b \<and>
           createdAt b' = createdAt b \<and>
           (\<forall>i. i \<noteq> bid \<longrightarrow> bookings d' i = bookings d i)"
  using patch_cases [OF assms]
  by (auto simp: applyUpdate_def statusUpdateData_def)

theorem status_update_frame_witness:
  "\<exists>b b' d'. patchBookingStatus (sampleDb ACCEPTED (Some ''w1'')) kofiUser ''b1''
        (statusBody WORKER_EN_ROUTE None) 5 = (Inr b', d') \<and>
      bookings (sampleDb ACCEPTED (Some ''w1'')) ''b1'' = Some b \<and> bookings d' ''b1'' = Some b' \<and>
      status b' = WORKER_EN_ROUTE \<and> status b = ACCEPTED \<and>
      customerId b' = customerId b \<and> description b' = description b \<and>
      estimatedPrice b' = estimatedPrice b \<and> createdAt b' = createdAt b"
proof -
  obtain b' d' where r: "patchBookingStatus (sampleDb ACCEPTED (Some ''w1'')) kofiUser ''b1''
        (statusBody WORKER_EN_ROUTE None) 5 = (Inr b', d')" and s: "status b' = WORKER_EN_ROUTE"
    by (simp add: patchBookingStatus_def schema_statusBody sampleDb_def sinkRepair_def
        transitionAllowed_def bookingWorker_def findWorkerById_def kofi_def ama_def
        kofiUser_def openBookingWorker_def bookingUpdate_def applyUpdate_def
        statusUpdateData_def)
  from status_update_frame [OF r] obtain b where
    "bookings (sampleDb ACCEPTED (Some ''w1'')) ''b1'' = Some b" "bookings d' ''b1'' = Some b'"
    "customerId b' = customerId b" "description b' = description b"
    "estimatedPrice b' = estimatedPrice b" "createdAt b' = createdAt b"
    by blast
  moreover from this(1) have "status b = ACCEPTED"
    by (auto simp: sampleDb_def sinkRepair_def)
  ultimately show ?thesis using r s by blast
qed


section \<open>Helper lemmas for create and accept\<close>

lemma acceptReads_Inr:
  assumes "acceptReads d user bid = Inr (w, b, s)"
  shows "role user = WORKER \<and> findWorkerByUserId d (uid user) = Some w \<and>
         verificationStatus w = VERIFIED \<and> bookings d bid = Some b \<and> status b = PENDING \<and>
         findWorkerService d (workerKey w) (categoryId b) = Some s"
  using assms
  by (auto simp: acceptReads_def split: if_splits option.splits)

lemma postAccept_cases:
  assumes "postAccept d user bid = (res, d')"
  shows "(\<exists>e. res = Inl e \<and> d' = d) \<or>
     (\<exists>w b s. acceptReads d user bid = Inr (w, b, s) \<and>
        res = Inr (applyUpdate (acceptUpdateData w s) b) \<and>
        bookings d' = (bookings d)(bid \<mapsto> applyUpdate (acceptUpdateData w s) b) \<and>
        workers d' = workers d \<and> workerServices d' = workerServices d \<and>
        payments d' = payments d)"
proof (cases "acceptReads d user bid")
  case (Inl e)
  with assms show ?thesis by (auto simp: postAccept_def)
next
  case (Inr r)
  obtain w b s where r: "r = (w, b, s)" by (cases r)
  from acceptReads_Inr [of d user bid w b s] Inr r have "bookings d bid = Some b" by simp
  with assms Inr r show ?thesis
    by (auto simp: postAccept_def acceptWrites_def bookingUpdate_def)
qed

lemma notifyRequestedWorker_bookings [simp]:
  "bookings (notifyRequestedWorker d body bid b c) = bookings d"
  by (simp add: notifyRequestedWorker_def split: option.splits)

lemma postBooking_cases:
  assumes "postBooking d user body newId now = (res, d')"
  shows "(\<exists>e. res = Inl e \<and> d' = d) \<or>
     (\<exists>b. res = Inr b \<and> bookings d newId = None \<and> bookings d' = (bookings d)(newId \<mapsto> b) \<and>
        status b = PENDING \<and> workerId b = bodyWorkerId body \<and> customerId b = uid user)"
  using assms
  by (auto simp: postBooking_def bookingCreate_def split: if_splits option.splits sum.splits)

section \<open>Creating a booking\<close>

text \<open>
  C9. Every booking the create endpoint creates is stored with status PENDING, and
  with the \<open>workerId\<close> of the request: a request that names a worker yields a booking
  that is assigned to that worker and is still PENDING.
\<close>

theorem created_booking_is_pending:
  assumes "postBooking d user body newId now = (Inr b, d')"
  shows "bookings d' newId = Some b \<and> status b = PENDING \<and> workerId b = bodyWorkerId body"
  using postBooking_cases [OF assms] by auto

theorem created_booking_is_pending_witness:
  "\<exists>b d'. postBooking (sampleDb PENDING None) customerUser
       \<lparr> bodyCategoryId = ''plumbing'', bodyWorkerId = Some ''w1'',
         bodyDescription = ''Bathroom tap is dripping'', bodyLatitude = 5, bodyLongitude = 0,
         bodyAddress = ''Osu, Accra'', bodyScheduledAt = NotGiven \<rparr> ''b2'' 2000 = (Inr b, d') \<and>
     bookings d' ''b2'' = Some b \<and> status b = PENDING \<and> workerId b = Some ''w1''"
proof -
  obtain b d' where r: "postBooking (sampleDb PENDING None) customerUser
       \<lparr> bodyCategoryId = ''plumbing'', bodyWorkerId = Some ''w1'',
         bodyDescription = ''Bathroom tap is dripping'', bodyLatitude = 5, bodyLongitude = 0,
         bodyAddress = ''Osu, Accra'', bodyScheduledAt = NotGiven \<rparr> ''b2'' 2000 = (Inr b, d')"
    by (simp add: postBooking_def createBookingSchema_def sampleDb_def requestedWorkerPrice_def
        findVerifiedWorkerService_def findWorkerById_def kofi_def ama_def bookingCreate_def)
  from created_booking_is_pending [OF r] r show ?thesis by auto
qed

section \<open>Claiming an open booking\<close>

text \<open>
  C4. For a PENDING booking with no \<open>workerId\<close>, a claim (the accept endpoint, or a
  status update to ACCEPTED) succeeds only if the caller's worker profile is VERIFIED
  and that worker has an active service in the booking's category; a claim by any
  other caller fails.
\<close>

theorem open_claim_needs_verified_offering_worker:
  assumes "bookings d bid = Some b" and "status b = PENDING" and "workerId b = None"
    and "(\<exists>b'. fst (postAccept d user bid) = Inr b') \<or>
         (bodyStatus body = statusName ACCEPTED \<and>
          (\<exists>b'. fst (patchBookingStatus d user bid body now) = Inr b'))"
  shows "\<exists>w s. findWorkerByUserId d (uid user) = Some w \<and> verificationStatus w = VERIFIED \<and>
           s \<in> set (workerServices d) \<and> serviceWorkerId s = workerKey w \<and>
           serviceCategoryId s = categoryId b \<and> isActive s"
proof -
  have patch: False
    if st: "bodyStatus body = statusName ACCEPTED"
      and ok: "fst (patchBookingStatus d user bid body now) = Inr b'" for b'
  proof -
    obtain res d' where r: "patchBookingStatus d user bid body now = (res, d')"
      by (cases "patchBookingStatus d user bid body now")
    from patch_cases [OF r] ok r assms(1) obtain dat where
      dat: "updateBookingStatusSchema body = Some dat"
      and perm: "if dataStatus dat = CANCELLED
         then (\<exists>x. bookingWorker d b = Some x \<and> userId x = uid user) \<or> customerId b = uid user
         else (\<exists>x. bookingWorker d b = Some x \<and> userId x = uid user)"
      by auto
    from schema_Some [OF dat] st have "dataStatus dat = ACCEPTED"
      by (cases "dataStatus dat") simp_all
    with perm assms(3) show False by (simp add: bookingWorker_def)
  qed
  with assms(4) obtain b' where ok: "fst (postAccept d user bid) = Inr b'" by blast
  obtain res d' where r: "postAccept d user bid = (res, d')"
    by (cases "postAccept d user bid")
  from postAccept_cases [OF r] ok r obtain w x s where
    "acceptReads d user bid = Inr (w, x, s)" by auto
  from acceptReads_Inr [OF this] assms(1)
  have w: "findWorkerByUserId d (uid user) = Some w" "verificationStatus w = VERIFIED"
    and s: "findWorkerService d (workerKey w) (categoryId b) = Some s"
    by auto
  from s have "s \<in> set (workerServices d) \<and> serviceWorkerId s = workerKey w \<and>
           serviceCategoryId s = categoryId b \<and> isActive s"
    by (auto simp: findWorkerService_def find_Some_iff)
  with w show ?thesis by blast
qed

theorem open_claim_needs_verified_offering_worker_witness:
  "(\<exists>b'. fst (postAccept (sampleDb PENDING None) kofiUser ''b1'') = Inr b') \<and>
   (\<exists>w s. findWorkerByUserId (sampleDb PENDING None) (uid kofiUser) = Some w \<and>
      verificationStatus w = VERIFIED \<and> s \<in> set (workerServices (sampleDb PENDING None)) \<and>
      serviceWorkerId s = workerKey w \<and> serviceCategoryId s = ''plumbing'' \<and> isActive s)"
proof -
  have b: "bookings (sampleDb PENDING None) ''b1'' = Some (sinkRepair PENDING None)"
    by (simp add: sampleDb_def)
  have p: "status (sinkRepair PENDING None) = PENDING" and n: "workerId (sinkRepair PENDING None) = None"
    by (simp_all add: sinkRepair_def)
  have ok: "\<exists>b'. fst (postAccept (sampleDb PENDING None) kofiUser ''b1'') = Inr b'"
    by (simp add: postAccept_def acceptReads_def kofiUser_def findWorkerByUserId_def
        sampleDb_def kofi_def ama_def sinkRepair_def findWorkerService_def acceptWrites_def
        bookingUpdate_def)
  then have "(\<exists>b'. fst (postAccept (sampleDb PENDING None) kofiUser ''b1'') = Inr b') \<or>
         (bodyStatus (statusBody ACCEPTED None) = statusName ACCEPTED \<and>
          (\<exists>b'. fst (patchBookingStatus (sampleDb PENDING None) kofiUser ''b1''
                       (statusBody ACCEPTED None) 5) = Inr b'))" ..
  from open_claim_needs_verified_offering_worker [OF b p n this] ok
  show ?thesis by (simp add: sinkRepair_def)
qed


section \<open>Helper lemmas for notifications\<close>

lemma notifyPaidWorker_tables [simp]:
  "bookings (notifyPaidWorker d bid b a) = bookings d"
  "payments (notifyPaidWorker d bid b a) = payments d"
  by (simp_all add: notifyPaidWorker_def split: option.splits)

lemma notifyCancelledWorker_tables [simp]:
  "bookings (notifyCancelledWorker d bid b) = bookings d"
  "workers (notifyCancelledWorker d bid b) = workers d"
  by (simp_all add: notifyCancelledWorker_def split: option.splits)

section \<open>Initiating a payment\<close>

text \<open>
  C8. A payment initiation that succeeds was made for a booking in status COMPLETED
  that had no payment with status COMPLETED; it stores the payment it returns, with
  the requested method: a CASH payment with status COMPLETED and \<open>paidAt\<close> set to the
  time of the request, a mobile-money payment (MTN_MOMO, VODAFONE_CASH) with status
  PROCESSING and no \<open>paidAt\<close>. For a booking that is not COMPLETED, or that has a
  COMPLETED payment, the request fails and changes nothing.
\<close>

theorem payment_initiation_guarded:
  "(\<forall>p d'. postInitiate d user body now = (Inr p, d') \<longrightarrow>
      (\<exists>b. bookings d (bodyBookingId body) = Some b \<and> status b = COMPLETED) \<and>
      (\<forall>q. payments d (bodyBookingId body) = Some q \<longrightarrow> paymentStatus q \<noteq> PAYMENT_COMPLETED) \<and>
      payments d' (bodyBookingId body) = Some p \<and> paymentMethod p = bodyMethod body \<and>
      (if bodyMethod body = CASH
       then paymentStatus p = PAYMENT_COMPLETED \<and> paidAt p = Some now
       else paymentStatus p = PAYMENT_PROCESSING \<and> paidAt p = None)) \<and>
   (\<forall>b. bookings d (bodyBookingId body) = Some b \<longrightarrow>
      status b \<noteq> COMPLETED \<or>
      (\<exists>q. payments d (bodyBookingId body) = Some q \<and> paymentStatus q = PAYMENT_COMPLETED) \<longrightarrow>
      (\<exists>e. postInitiate d user body now = (Inl e, d)))"
proof -
  have ok: "\<forall>p d'. postInitiate d user body now = (Inr p, d') \<longrightarrow>
      (\<exists>b. bookings d (bodyBookingId body) = Some b \<and> status b = COMPLETED) \<and>
      (\<forall>q. payments d (bodyBookingId body) = Some q \<longrightarrow> paymentStatus q \<noteq> PAYMENT_COMPLETED) \<and>
      payments d' (bodyBookingId body) = Some p \<and> paymentMethod p = bodyMethod body \<and>
      (if bodyMethod body = CASH
       then paymentStatus p = PAYMENT_COMPLETED \<and> paidAt p = Some now
       else paymentStatus p = PAYMENT_PROCESSING \<and> paidAt p = None)"
    by (auto simp: postInitiate_def paymentUpsert_def Let_def
        split: option.splits if_splits)
  have refused: "\<forall>b. bookings d (bodyBookingId body) = Some b \<longrightarrow>
      status b \<noteq> COMPLETED \<or>
      (\<exists>q. payments d (bodyBookingId body) = Some q \<and> paymentStatus q = PAYMENT_COMPLETED) \<longrightarrow>
      (\<exists>e. postInitiate d user body now = (Inl e, d))"
    by (auto simp: postInitiate_def)
  from ok refused show ?thesis by (intro conjI)
qed

theorem payment_initiation_guarded_witness:
  "(\<exists>p d'. postInitiate (sampleDb COMPLETED (Some ''w1'')) customerUser
        \<lparr>bodyBookingId = ''b1'', bodyMethod = CASH, bodyPhone = None\<rparr> 9000 = (Inr p, d') \<and>
      payments d' ''b1'' = Some p \<and> paymentStatus p = PAYMENT_COMPLETED \<and> paidAt p = Some 9000) \<and>
   (\<exists>p d'. postInitiate (sampleDb COMPLETED (Some ''w1'')) customerUser
        \<lparr>bodyBookingId = ''b1'', bodyMethod = MTN_MOMO, bodyPhone = Some ''0241234567''\<rparr> 9000 =
          (Inr p, d') \<and>
      payments d' ''b1'' = Some p \<and> paymentStatus p = PAYMENT_PROCESSING \<and> paidAt p = None) \<and>
   (\<exists>e. postInitiate (sampleDb IN_PROGRESS (Some ''w1'')) customerUser
        \<lparr>bodyBookingId = ''b1'', bodyMethod = CASH, bodyPhone = None\<rparr> 9000 =
          (Inl e, sampleDb IN_PROGRESS (Some ''w1'')))"
proof -
  obtain p d' where cash: "postInitiate (sampleDb COMPLETED (Some ''w1'')) customerUser
        \<lparr>bodyBookingId = ''b1'', bodyMethod = CASH, bodyPhone = None\<rparr> 9000 = (Inr p, d')"
    by (simp add: postInitiate_def sampleDb_def sinkRepair_def customerUser_def
        bookingAmount_def falsyNumber_def paymentUpsert_def Let_def)
  obtain q e' where momo: "postInitiate (sampleDb COMPLETED (Some ''w1'')) customerUser
        \<lparr>bodyBookingId = ''b1'', bodyMethod = MTN_MOMO, bodyPhone = Some ''0241234567''\<rparr> 9000 =
          (Inr q, e')"
    by (simp add: postInitiate_def sampleDb_def sinkRepair_def customerUser_def
        bookingAmount_def falsyNumber_def paymentUpsert_def falsyString_def Let_def)
  have b: "bookings (sampleDb IN_PROGRESS (Some ''w1'')) ''b1'' = Some (sinkRepair IN_PROGRESS (Some ''w1''))"
    by (simp add: sampleDb_def)
  have 1: "payments d' ''b1'' = Some p \<and> paymentStatus p = PAYMENT_COMPLETED \<and> paidAt p = Some 9000"
    using payment_initiation_guarded [of "sampleDb COMPLETED (Some ''w1'')" customerUser
        "\<lparr>bodyBookingId = ''b1'', bodyMethod = CASH, bodyPhone = None\<rparr>" 9000,
        THEN conjunct1, rule_format, OF cash]
    by simp
  have 2: "payments e' ''b1'' = Some q \<and> paymentStatus q = PAYMENT_PROCESSING \<and> paidAt q = None"
    using payment_initiation_guarded [of "sampleDb COMPLETED (Some ''w1'')" customerUser
        "\<lparr>bodyBookingId = ''b1'', bodyMethod = MTN_MOMO, bodyPhone = Some ''0241234567''\<rparr>" 9000,
        THEN conjunct1, rule_format, OF momo]
    by simp
  have 3: "\<exists>e. postInitiate (sampleDb IN_PROGRESS (Some ''w1'')) customerUser
        \<lparr>bodyBookingId = ''b1'', bodyMethod = CASH, bodyPhone = None\<rparr> 9000 =
          (Inl e, sampleDb IN_PROGRESS (Some ''w1''))"
    using payment_initiation_guarded [of "sampleDb IN_PROGRESS (Some ''w1'')" customerUser
        "\<lparr>bodyBookingId = ''b1'', bodyMethod = CASH, bodyPhone = None\<rparr>" 9000,
        THEN conjunct2, rule_format, of "sinkRepair IN_PROGRESS (Some ''w1'')"] b
    by (simp add: sinkRepair_def)
  from cash momo 1 2 3 show ?thesis by blast
qed



section \<open>A request served alone\<close>

text \<open>Served with nothing in between, the steps of a request give the response and
  the database of the handler functions of the first sections.\<close>

lemma served_patchBookingStatus:
  "served d (PatchBookingStatus user bid body now) =
     Some (map_sum id BookingResponse (fst (patchBookingStatus d user bid body now)),
           snd (patchBookingStatus d user bid body now))"
  by (simp add: served_def patchBookingStatus_def openBookingWorker_def bookingUpdate_def
      notifyCustomer_def eval_nat_numeral Let_def
      split: option.splits)

lemma served_postAccept:
  "served d (PostAccept user bid) =
     Some (map_sum id BookingResponse (fst (postAccept d user bid)), snd (postAccept d user bid))"
  by (simp add: served_def postAccept_def acceptReads_def acceptWrites_def bookingUpdate_def
      eval_nat_numeral split: option.splits)

lemma served_postBooking:
  "served d (PostBooking user body newId now) =
     Some (map_sum id BookingResponse (fst (postBooking d user body newId now)),
           snd (postBooking d user body newId now))"
  by (simp add: served_def postBooking_def requestedWorkerPrice_def bookingCreate_def
      newBooking_def notifyRequestedWorker_def bookingWorker_def findWorkerById_def
      falsyString_def eval_nat_numeral
      split: option.splits sum.splits)

lemma served_adminCancel:
  "served d (AdminCancel bid) =
     Some (map_sum id BookingResponse (fst (adminCancel d bid)), snd (adminCancel d bid))"
  by (simp add: served_def adminCancel_def cancelUpdateData_def bookingUpdate_def
      notifyCancelledWorker_def findWorkerById_def notificationCreate_def applyUpdate_def
      eval_nat_numeral split: option.splits)

lemma served_postInitiate:
  "served d (PostInitiate user body now) =
     Some (map_sum id PaymentResponse (fst (postInitiate d user body now)),
           snd (postInitiate d user body now))"
  by (simp add: served_def postInitiate_def paymentUpsert_def notifyPaidWorker_def
      findWorkerById_def notificationCreate_def Let_def eval_nat_numeral
      split: option.splits)


section \<open>What one step does to the booking table\<close>

lemma applyUpdate_cancel [simp]:
  "applyUpdate cancelUpdateData x = x\<lparr>status := CANCELLED\<rparr>"
  by (simp add: applyUpdate_def cancelUpdateData_def)

lemma openBookingWorker_None:
  assumes "openBookingWorker d user b t = Inr w"
    and "t \<noteq> ACCEPTED \<or> \<not> falsyString (workerId b)"
  shows "w = None"
  using assms by (auto simp: openBookingWorker_def split: if_splits option.splits)

lemma transitionAllowed_facts:
  "\<not> transitionAllowed s PENDING"
  "transitionAllowed s ACCEPTED \<Longrightarrow> s = PENDING"
  "s = COMPLETED \<or> s = CANCELLED \<Longrightarrow> \<not> transitionAllowed s t"
  by (cases s; simp add: transitionAllowed_def)+

lemma transitionAllowed_ACCEPTED [simp]:
  "transitionAllowed s ACCEPTED \<longleftrightarrow> s = PENDING"
  by (cases s) (simp_all add: transitionAllowed_def)

lemma applyUpdate_status_fields [simp]:
  "status (applyUpdate (statusUpdateData dat w now) b) = dataStatus dat"
  "workerId (applyUpdate (statusUpdateData dat w now) b) =
     (case w of None \<Rightarrow> workerId b | Some k \<Rightarrow> Some k)"
  "status (applyUpdate (acceptUpdateData k s) b) = ACCEPTED"
  "workerId (applyUpdate (acceptUpdateData k s) b) = Some (workerKey k)"
  by (simp_all add: applyUpdate_def statusUpdateData_def acceptUpdateData_def)

lemma act_row:
  assumes "bookings d i = Some x"
  shows "bookings (fst (act d t)) i = Some x \<or>
         (\<exists>u. bookingWrite t = Some (i, u) \<and> bookings (fst (act d t)) i = Some (applyUpdate u x))"
  using assms
  by (cases t)
    (auto simp: bookingUpdate_def bookingCreate_def paymentUpsert_def Let_def
      split: option.splits sum.splits)

lemma act_fresh:
  assumes "bookings d i = None"
  shows "bookings (fst (act d t)) i = None \<or>
         (\<exists>x. bookings (fst (act d t)) i = Some x \<and> status x = PENDING)"
  using assms
  by (cases t)
    (auto simp: bookingUpdate_def bookingCreate_def paymentUpsert_def newBooking_def Let_def
      split: option.splits sum.splits)

lemma start_fresh:
  assumes "start r = Inl t"
  shows "\<not> holdsUpdate bid t" and "quietFor bid t" and "backed d t" and "bookingWrite t = None \<or> (\<exists>b. t = CancelUpdate b)"
  using assms by (cases r; auto split: option.splits if_splits)+

lemma not_holds_quiet: "\<not> holdsUpdate bid t \<Longrightarrow> quietFor bid t"
  by (cases t) simp_all

lemma not_holds_backed: "\<forall>i. \<not> holdsUpdate i t \<Longrightarrow> backed d t"
  by (cases t) simp_all

lemma not_holds_write:
  assumes "\<not> holdsUpdate bid t" and "bookingWrite t = Some (bid, u)"
  shows "u = cancelUpdateData"
  using assms by (cases t) simp_all

lemma quiet_write:
  assumes "quietFor bid t" and "bookingWrite t = Some (bid, u)"
  shows "setWorkerId u = None \<and> setStatus u \<noteq> Some PENDING"
  using assms
  by (cases t) (auto simp: statusUpdateData_def cancelUpdateData_def)

lemma continue_terminal:
  assumes "bookings d bid = Some x" and "status x = COMPLETED \<or> status x = CANCELLED"
    and "act d t = (d', Continue t')" and "\<not> holdsUpdate bid t"
  shows "\<not> holdsUpdate bid t'"
  using assms
  by (cases t)
    (auto simp: Let_def transitionAllowed_facts(3) paymentUpsert_def
      split: option.splits if_splits prod.splits sum.splits)

lemma continue_quiet:
  assumes "bookings d bid = Some x" and "status x \<noteq> PENDING"
    and "act d t = (d', Continue t')" and "quietFor bid t"
  shows "quietFor bid t'"
  using assms
  by (cases t)
    (auto simp: Let_def transitionAllowed_facts(1) paymentUpsert_def
      split: option.splits if_splits prod.splits sum.splits)


section \<open>What a schedule does\<close>

lemma perform_cases:
  assumes "perform (d, ts) e = (d', ts')"
  shows "(d' = d \<and> (ts' = ts \<or> (\<exists>r t. start r = Inl t \<and> ts' = ts @ [t]))) \<or>
         (\<exists>t. t \<in> set ts \<and> d' = fst (act d t) \<and>
            ((\<exists>t'. act d t = (d', Continue t') \<and> set ts' \<subseteq> insert t' (set ts)) \<or>
             set ts' \<subseteq> set ts))"
proof (cases e)
  case (Arrive r)
  with assms show ?thesis by (cases "start r") auto
next
  case (Run i)
  show ?thesis
  proof (cases "i < length ts")
    case False
    with Run assms show ?thesis by simp
  next
    case True
    then have m: "ts ! i \<in> set ts" by simp
    obtain d1 out where a: "act d (ts ! i) = (d1, out)" by (cases "act d (ts ! i)")
    show ?thesis
    proof (cases out)
      case (Continue t')
      with a True Run assms have e: "d' = d1" "ts' = ts[i := t']" by simp_all
      with a Continue have "act d (ts ! i) = (d', Continue t')" by simp
      moreover from e have "set ts' \<subseteq> insert t' (set ts)"
        using set_update_subset_insert [of ts i t'] by simp
      moreover from a e have "d' = fst (act d (ts ! i))" by simp
      ultimately have "ts ! i \<in> set ts \<and> d' = fst (act d (ts ! i)) \<and>
            ((\<exists>t'. act d (ts ! i) = (d', Continue t') \<and> set ts' \<subseteq> insert t' (set ts)) \<or>
             set ts' \<subseteq> set ts)"
        using m by blast
      then show ?thesis by blast
    next
      case (Respond res)
      with a True Run assms have e: "d' = d1" "ts' = take i ts @ drop (Suc i) ts" by simp_all
      have "set (take i ts @ drop (Suc i) ts) \<subseteq> set ts"
        using set_take_subset [of i ts] set_drop_subset [of "Suc i" ts] by auto
      with e have "set ts' \<subseteq> set ts" by simp
      moreover from a e have "d' = fst (act d (ts ! i))" by simp
      ultimately have "ts ! i \<in> set ts \<and> d' = fst (act d (ts ! i)) \<and>
            ((\<exists>t'. act d (ts ! i) = (d', Continue t') \<and> set ts' \<subseteq> insert t' (set ts)) \<or>
             set ts' \<subseteq> set ts)"
        using m by blast
      then show ?thesis by blast
    qed
  qed
qed

lemma terminal_refused:
  assumes "bookings d bid = Some b" and "status b = COMPLETED \<or> status b = CANCELLED"
  shows "(\<exists>e. patchBookingStatus d user bid body now = (Inl e, d)) \<and>
         (\<exists>e. postAccept d user bid = (Inl e, d))"
proof
  obtain res d' where r: "patchBookingStatus d user bid body now = (res, d')"
    by (cases "patchBookingStatus d user bid body now")
  from assms(2) have "\<not> transitionAllowed (status b) t" for t
    by (auto simp: transitionAllowed_def)
  with patch_cases [OF r] assms(1) r
  show "\<exists>e. patchBookingStatus d user bid body now = (Inl e, d)" by auto
next
  obtain res d' where r: "postAccept d user bid = (res, d')"
    by (cases "postAccept d user bid")
  from postAccept_cases [OF r] show "\<exists>e. postAccept d user bid = (Inl e, d)"
  proof
    assume "\<exists>e. res = Inl e \<and> d' = d"
    with r show ?thesis by auto
  next
    assume "\<exists>w b s. acceptReads d user bid = Inr (w, b, s) \<and>
        res = Inr (applyUpdate (acceptUpdateData w s) b) \<and>
        bookings d' = (bookings d)(bid \<mapsto> applyUpdate (acceptUpdateData w s) b) \<and>
        workers d' = workers d \<and> workerServices d' = workerServices d \<and>
        payments d' = payments d"
    then obtain w x s where "acceptReads d user bid = Inr (w, x, s)" by auto
    from acceptReads_Inr [OF this] assms show ?thesis by auto
  qed
qed


lemma terminal_reads_refused:
  assumes "bookings d bid = Some b" and "status b = COMPLETED \<or> status b = CANCELLED"
  shows "(\<exists>e. act d (PatchRead user bid dat now) = (d, Respond (Inl e))) \<and>
         (\<exists>e. act d (AcceptBookingRead bid worker) = (d, Respond (Inl e)))"
  using assms by (auto simp: transitionAllowed_facts(3))

lemma perform_terminal:
  assumes "bookings d bid = Some x" and "x = b \<or> x = b\<lparr>status := CANCELLED\<rparr>"
    and "status b = COMPLETED \<or> status b = CANCELLED"
    and "\<forall>t \<in> set ts. \<not> holdsUpdate bid t"
    and "perform (d, ts) e = (d', ts')"
  shows "(\<exists>x'. bookings d' bid = Some x' \<and> (x' = b \<or> x' = b\<lparr>status := CANCELLED\<rparr>)) \<and>
         (\<forall>t \<in> set ts'. \<not> holdsUpdate bid t)"
proof -
  from assms(2,3) have tx: "status x = COMPLETED \<or> status x = CANCELLED" by auto
  from perform_cases [OF assms(5)] show ?thesis
  proof
    assume "d' = d \<and> (ts' = ts \<or> (\<exists>r t. start r = Inl t \<and> ts' = ts @ [t]))"
    with assms(1,2,4) start_fresh(1) show ?thesis by auto
  next
    assume "\<exists>t. t \<in> set ts \<and> d' = fst (act d t) \<and>
            ((\<exists>t'. act d t = (d', Continue t') \<and> set ts' \<subseteq> insert t' (set ts)) \<or>
             set ts' \<subseteq> set ts)"
    then obtain t where t: "t \<in> set ts" "d' = fst (act d t)"
      and c: "(\<exists>t'. act d t = (d', Continue t') \<and> set ts' \<subseteq> insert t' (set ts)) \<or>
             set ts' \<subseteq> set ts"
      by blast
    from t(1) assms(4) have q: "\<not> holdsUpdate bid t" by simp
    from act_row [OF assms(1), of t] not_holds_write [OF q] t(2)
    have "bookings d' bid = Some x \<or> bookings d' bid = Some (x\<lparr>status := CANCELLED\<rparr>)"
      by auto
    with assms(2) have row: "\<exists>x'. bookings d' bid = Some x' \<and> (x' = b \<or> x' = b\<lparr>status := CANCELLED\<rparr>)"
      by auto
    from c have "\<forall>t \<in> set ts'. \<not> holdsUpdate bid t"
    proof
      assume "\<exists>t'. act d t = (d', Continue t') \<and> set ts' \<subseteq> insert t' (set ts)"
      then obtain t' where t': "act d t = (d', Continue t')" "set ts' \<subseteq> insert t' (set ts)"
        by blast
      from continue_terminal [OF assms(1) tx t'(1) q] t'(2) assms(4) show ?thesis by auto
    next
      assume "set ts' \<subseteq> set ts"
      with assms(4) show ?thesis by auto
    qed
    with row show ?thesis ..
  qed
qed

lemma execute_terminal:
  assumes "bookings d bid = Some x" and "x = b \<or> x = b\<lparr>status := CANCELLED\<rparr>"
    and "status b = COMPLETED \<or> status b = CANCELLED"
    and "\<forall>t \<in> set ts. \<not> holdsUpdate bid t"
  shows "(\<exists>x'. bookings (fst (execute (d, ts) es)) bid = Some x' \<and>
            (x' = b \<or> x' = b\<lparr>status := CANCELLED\<rparr>)) \<and>
         (\<forall>t \<in> set (snd (execute (d, ts) es)). \<not> holdsUpdate bid t)"
  using assms
proof (induction es arbitrary: d ts x)
  case Nil
  then show ?case by simp
next
  case (Cons e es)
  obtain d' ts' where p: "perform (d, ts) e = (d', ts')" by (cases "perform (d, ts) e")
  from perform_terminal [OF Cons.prems p] obtain x' where
    "bookings d' bid = Some x'" "x' = b \<or> x' = b\<lparr>status := CANCELLED\<rparr>"
    "\<forall>t \<in> set ts'. \<not> holdsUpdate bid t"
    by blast
  from Cons.IH [OF this(1,2) Cons.prems(3) this(3)] p show ?case by simp
qed

section \<open>Terminal bookings\<close>

text \<open>
  C2. Let a booking be COMPLETED or CANCELLED, and let no request in flight have read
  it and have an update of it ahead (a status update or an accept that read it
  before it became terminal). Then on every schedule of further requests to any of
  the endpoints, their steps interleaved in any way: the booking is still there, its
  \<open>workerId\<close> and every field other than \<open>status\<close> are as they were, and its status
  is terminal, either unchanged or CANCELLED where it was COMPLETED (the move the
  admin cancel endpoint makes, which looks at no status); still no request in flight
  has an update of it ahead; and a status update or an accept that reads the booking
  then fails and writes nothing, as does either request served alone.
\<close>

theorem terminal_booking_stays_closed:
  assumes "bookings d bid = Some b" and "status b = COMPLETED \<or> status b = CANCELLED"
    and "\<forall>t \<in> set ts. \<not> holdsUpdate bid t"
  shows "\<exists>b'. bookings (fst (execute (d, ts) es)) bid = Some b' \<and>
           (b' = b \<or> b' = b\<lparr>status := CANCELLED\<rparr>) \<and>
           workerId b' = workerId b \<and>
           (status b' = COMPLETED \<or> status b' = CANCELLED) \<and>
           (\<forall>t \<in> set (snd (execute (d, ts) es)). \<not> holdsUpdate bid t) \<and>
           (\<exists>e. act (fst (execute (d, ts) es)) (PatchRead user bid dat now) =
                  (fst (execute (d, ts) es), Respond (Inl e))) \<and>
           (\<exists>e. act (fst (execute (d, ts) es)) (AcceptBookingRead bid worker) =
                  (fst (execute (d, ts) es), Respond (Inl e))) \<and>
           (\<exists>e. patchBookingStatus (fst (execute (d, ts) es)) user bid body now =
                  (Inl e, fst (execute (d, ts) es))) \<and>
           (\<exists>e. postAccept (fst (execute (d, ts) es)) user bid =
                  (Inl e, fst (execute (d, ts) es)))"
proof -
  from execute_terminal [OF assms(1) _ assms(2,3), of es] obtain b' where
    b': "bookings (fst (execute (d, ts) es)) bid = Some b'" "b' = b \<or> b' = b\<lparr>status := CANCELLED\<rparr>"
    and q: "\<forall>t \<in> set (snd (execute (d, ts) es)). \<not> holdsUpdate bid t"
    by blast
  from b'(2) assms(2) have t: "status b' = COMPLETED \<or> status b' = CANCELLED"
    and w: "workerId b' = workerId b"
    by auto
  from terminal_refused [OF b'(1) t, of user body now]
    terminal_reads_refused [OF b'(1) t, of user dat now worker] b' t w q
  show ?thesis by blast
qed

theorem terminal_booking_stays_closed_witness:
  "map_option status
     (bookings (fst (execute (sampleDb COMPLETED (Some ''w1''), [])
        [Arrive (PostAccept amaUser ''b1''), Arrive (AdminCancel ''b1''), Run 0, Run 1, Run 0,
         Arrive (PatchBookingStatus kofiUser ''b1'' (statusBody ACCEPTED None) 7), Run 1]))
        ''b1'') = Some CANCELLED \<and>
   map_option workerId
     (bookings (fst (execute (sampleDb COMPLETED (Some ''w1''), [])
        [Arrive (PostAccept amaUser ''b1''), Arrive (AdminCancel ''b1''), Run 0, Run 1, Run 0,
         Arrive (PatchBookingStatus kofiUser ''b1'' (statusBody ACCEPTED None) 7), Run 1]))
        ''b1'') = Some (Some ''w1'')"
proof -
  have b: "bookings (sampleDb COMPLETED (Some ''w1'')) ''b1'' = Some (sinkRepair COMPLETED (Some ''w1''))"
    by (simp add: sampleDb_def)
  have t: "status (sinkRepair COMPLETED (Some ''w1'')) = COMPLETED \<or>
           status (sinkRepair COMPLETED (Some ''w1'')) = CANCELLED"
    by (simp add: sinkRepair_def)
  have q: "\<forall>t \<in> set []. \<not> holdsUpdate ''b1'' t" by simp
  have c: "bookings (fst (execute (sampleDb COMPLETED (Some ''w1''), [])
        [Arrive (PostAccept amaUser ''b1''), Arrive (AdminCancel ''b1''), Run 0, Run 1, Run 0,
         Arrive (PatchBookingStatus kofiUser ''b1'' (statusBody ACCEPTED None) 7), Run 1]))
        ''b1'' \<noteq> Some (sinkRepair COMPLETED (Some ''w1''))"
    by (simp add: amaUser_def findWorkerByUserId_def sampleDb_def kofi_def ama_def
        sinkRepair_def bookingUpdate_def schema_statusBody)
  from terminal_booking_stays_closed [OF b t q, of
      "[Arrive (PostAccept amaUser ''b1''), Arrive (AdminCancel ''b1''), Run 0, Run 1, Run 0,
        Arrive (PatchBookingStatus kofiUser ''b1'' (statusBody ACCEPTED None) 7), Run 1]"
      kofiUser "\<lparr>dataStatus = ACCEPTED, dataFinalPrice = None\<rparr>" 8 ama
      "statusBody ACCEPTED None"] c
  show ?thesis by (auto simp: sinkRepair_def)
qed

text \<open>The admin cancel endpoint moves a COMPLETED booking to CANCELLED.\<close>

theorem admin_cancel_changes_completed:
  "bookings (sampleDb COMPLETED (Some ''w1'')) ''b1'' = Some (sinkRepair COMPLETED (Some ''w1'')) \<and>
   status (sinkRepair COMPLETED (Some ''w1'')) = COMPLETED \<and>
   fst (adminCancel (sampleDb COMPLETED (Some ''w1'')) ''b1'') =
     Inr (sinkRepair CANCELLED (Some ''w1'')) \<and>
   bookings (snd (adminCancel (sampleDb COMPLETED (Some ''w1'')) ''b1'')) ''b1'' =
     Some (sinkRepair CANCELLED (Some ''w1''))"
  by (simp add: sampleDb_def sinkRepair_def adminCancel_def bookingUpdate_def applyUpdate_def)



text \<open>The condition on the requests in flight is needed: an accept that has read the
  booking while it was PENDING writes after the customer's cancellation.\<close>

lemma stale_accept_follows_cancel:
  "map_option status
     (bookings (fst (execute (sampleDb PENDING None, [])
        [Arrive (PostAccept kofiUser ''b1''), Run 0, Run 0, Run 0,
         Arrive (PatchBookingStatus customerUser ''b1'' (statusBody CANCELLED None) 7),
         Run 1, Run 1])) ''b1'') = Some CANCELLED \<and>
   map_option status
     (bookings (fst (execute (sampleDb PENDING None, [])
        [Arrive (PostAccept kofiUser ''b1''), Run 0, Run 0, Run 0,
         Arrive (PatchBookingStatus customerUser ''b1'' (statusBody CANCELLED None) 7),
         Run 1, Run 1, Run 0])) ''b1'') = Some ACCEPTED"
  by (simp add: kofiUser_def customerUser_def findWorkerByUserId_def sampleDb_def kofi_def
      ama_def sinkRepair_def findWorkerService_def bookingUpdate_def schema_statusBody
      transitionAllowed_def bookingWorker_def applyUpdate_def statusUpdateData_def
      acceptUpdateData_def)


section \<open>The assigned worker\<close>

lemma applyUpdate_fields:
  "workerId (applyUpdate u x) = (case setWorkerId u of None \<Rightarrow> workerId x | Some k \<Rightarrow> Some k)"
  "status (applyUpdate u x) = (case setStatus u of None \<Rightarrow> status x | Some s \<Rightarrow> s)"
  by (simp_all add: applyUpdate_def)

lemma act_keeps_worker:
  assumes "bookings d i = Some x"
  shows "\<exists>x'. bookings (fst (act d t)) i = Some x' \<and>
           (workerId x \<noteq> None \<longrightarrow> workerId x' \<noteq> None) \<and>
           (\<not> writesWorker t \<longrightarrow> workerId x' = workerId x)"
proof -
  from act_row [OF assms, of t] show ?thesis
  proof
    assume "bookings (fst (act d t)) i = Some x"
    then show ?thesis by simp
  next
    assume "\<exists>u. bookingWrite t = Some (i, u) \<and>
              bookings (fst (act d t)) i = Some (applyUpdate u x)"
    then obtain u where u: "bookingWrite t = Some (i, u)"
      "bookings (fst (act d t)) i = Some (applyUpdate u x)"
      by blast
    from u(1) have "\<not> writesWorker t \<longrightarrow> setWorkerId u = None"
      by (cases t) (auto simp: statusUpdateData_def cancelUpdateData_def)
    with u(2) show ?thesis by (auto simp: applyUpdate_fields split: option.splits)
  qed
qed

lemma perform_quiet:
  assumes "bookings d bid = Some x" and "status x \<noteq> PENDING"
    and "\<forall>t \<in> set ts. quietFor bid t"
    and "perform (d, ts) e = (d', ts')"
  shows "(\<exists>x'. bookings d' bid = Some x' \<and> workerId x' = workerId x \<and> status x' \<noteq> PENDING) \<and>
         (\<forall>t \<in> set ts'. quietFor bid t)"
proof -
  from perform_cases [OF assms(4)] show ?thesis
  proof
    assume "d' = d \<and> (ts' = ts \<or> (\<exists>r t. start r = Inl t \<and> ts' = ts @ [t]))"
    with assms(1,2,3) start_fresh(2) show ?thesis by auto
  next
    assume "\<exists>t. t \<in> set ts \<and> d' = fst (act d t) \<and>
            ((\<exists>t'. act d t = (d', Continue t') \<and> set ts' \<subseteq> insert t' (set ts)) \<or>
             set ts' \<subseteq> set ts)"
    then obtain t where t: "t \<in> set ts" "d' = fst (act d t)"
      and c: "(\<exists>t'. act d t = (d', Continue t') \<and> set ts' \<subseteq> insert t' (set ts)) \<or>
             set ts' \<subseteq> set ts"
      by blast
    from t(1) assms(3) have q: "quietFor bid t" by simp
    from act_row [OF assms(1), of t]
    have row: "\<exists>x'. bookings d' bid = Some x' \<and> workerId x' = workerId x \<and> status x' \<noteq> PENDING"
    proof
      assume "bookings (fst (act d t)) bid = Some x"
      with t(2) assms(2) show ?thesis by simp
    next
      assume "\<exists>u. bookingWrite t = Some (bid, u) \<and>
                bookings (fst (act d t)) bid = Some (applyUpdate u x)"
      then obtain u where u: "bookingWrite t = Some (bid, u)"
        "bookings (fst (act d t)) bid = Some (applyUpdate u x)"
        by blast
      from quiet_write [OF q u(1)] u(2) t(2) assms(2) show ?thesis
        by (auto simp: applyUpdate_fields split: option.splits)
    qed
    from c have "\<forall>t \<in> set ts'. quietFor bid t"
    proof
      assume "\<exists>t'. act d t = (d', Continue t') \<and> set ts' \<subseteq> insert t' (set ts)"
      then obtain t' where t': "act d t = (d', Continue t')" "set ts' \<subseteq> insert t' (set ts)"
        by blast
      from continue_quiet [OF assms(1,2) t'(1) q] t'(2) assms(3) show ?thesis by auto
    next
      assume "set ts' \<subseteq> set ts"
      with assms(3) show ?thesis by auto
    qed
    with row show ?thesis ..
  qed
qed

lemma execute_quiet:
  assumes "bookings d bid = Some x" and "status x \<noteq> PENDING"
    and "\<forall>t \<in> set ts. quietFor bid t"
  shows "\<exists>x'. bookings (fst (execute (d, ts) es)) bid = Some x' \<and> workerId x' = workerId x \<and>
           status x' \<noteq> PENDING"
  using assms
proof (induction es arbitrary: d ts x)
  case Nil
  then show ?case by simp
next
  case (Cons e es)
  obtain d' ts' where p: "perform (d, ts) e = (d', ts')" by (cases "perform (d, ts) e")
  from perform_quiet [OF Cons.prems p] obtain x' where
    x': "bookings d' bid = Some x'" "workerId x' = workerId x" "status x' \<noteq> PENDING"
    "\<forall>t \<in> set ts'. quietFor bid t"
    by blast
  from Cons.IH [OF x'(1,3,4)] x'(2) p show ?case by simp
qed

lemma backed_stable:
  assumes "backed d t"
    and "\<And>i x. bookings d i = Some x \<Longrightarrow>
           \<exists>x'. bookings d' i = Some x' \<and> (workerId x \<noteq> None \<longrightarrow> workerId x' \<noteq> None)"
  shows "backed d' t"
proof (cases t)
  case (PatchUpdate b booking dat w now)
  show ?thesis
  proof (cases "bookings d b")
    case None
    with assms(1) PatchUpdate show ?thesis by auto
  next
    case (Some x)
    from assms(2) [OF Some] obtain x' where
      "bookings d' b = Some x'" "workerId x \<noteq> None \<longrightarrow> workerId x' \<noteq> None"
      by blast
    with assms(1) PatchUpdate Some show ?thesis by auto
  qed
qed simp_all

lemma continue_backed:
  assumes "act d t = (d', Continue t')"
  shows "backed d' t'"
  using assms
  by (cases t)
    (auto simp: Let_def bookingWorker_def paymentUpsert_def
      split: option.splits if_splits prod.splits sum.splits)

lemma write_backed:
  assumes "backed d t" and "bookingWrite t = Some (i, u)" and "bookings d i = Some x"
    and "workerId (applyUpdate u x) = None"
  shows "status (applyUpdate u x) = CANCELLED"
  using assms
  by (cases t) (auto split: option.splits)

lemma perform_unassigned:
  assumes "\<forall>i x. bookings d i = Some x \<longrightarrow> workerId x = None \<longrightarrow>
             status x = PENDING \<or> status x = CANCELLED"
    and "\<forall>t \<in> set ts. backed d t"
    and "perform (d, ts) e = (d', ts')"
  shows "(\<forall>i x. bookings d' i = Some x \<longrightarrow> workerId x = None \<longrightarrow>
             status x = PENDING \<or> status x = CANCELLED) \<and>
         (\<forall>t \<in> set ts'. backed d' t)"
proof -
  from perform_cases [OF assms(3)] show ?thesis
  proof
    assume "d' = d \<and> (ts' = ts \<or> (\<exists>r t. start r = Inl t \<and> ts' = ts @ [t]))"
    with assms(1,2) start_fresh(3) show ?thesis by auto
  next
    assume "\<exists>t. t \<in> set ts \<and> d' = fst (act d t) \<and>
            ((\<exists>t'. act d t = (d', Continue t') \<and> set ts' \<subseteq> insert t' (set ts)) \<or>
             set ts' \<subseteq> set ts)"
    then obtain t where t: "t \<in> set ts" "d' = fst (act d t)"
      and c: "(\<exists>t'. act d t = (d', Continue t') \<and> set ts' \<subseteq> insert t' (set ts)) \<or>
             set ts' \<subseteq> set ts"
      by blast
    from t(1) assms(2) have q: "backed d t" by simp
    have inv: "status x' = PENDING \<or> status x' = CANCELLED"
      if x': "bookings d' i = Some x'" and n: "workerId x' = None" for i x'
    proof (cases "bookings d i")
      case None
      from act_fresh [OF None, of t] t(2) x' show ?thesis by auto
    next
      case (Some x)
      from act_row [OF Some, of t] show ?thesis
      proof
        assume "bookings (fst (act d t)) i = Some x"
        with t(2) x' n assms(1) Some show ?thesis by auto
      next
        assume "\<exists>u. bookingWrite t = Some (i, u) \<and>
                  bookings (fst (act d t)) i = Some (applyUpdate u x)"
        then obtain u where u: "bookingWrite t = Some (i, u)"
          "bookings (fst (act d t)) i = Some (applyUpdate u x)"
          by blast
        with t(2) x' have "x' = applyUpdate u x" by simp
        with write_backed [OF q u(1) Some] n show ?thesis by simp
      qed
    qed
    have mono: "\<exists>x'. bookings d' i = Some x' \<and> (workerId x \<noteq> None \<longrightarrow> workerId x' \<noteq> None)"
      if "bookings d i = Some x" for i x
      using act_keeps_worker [OF that, of t] t(2) by blast
    have old: "\<forall>s \<in> set ts. backed d' s"
      using assms(2) backed_stable mono by blast
    from c have "\<forall>s \<in> set ts'. backed d' s"
    proof
      assume "\<exists>t'. act d t = (d', Continue t') \<and> set ts' \<subseteq> insert t' (set ts)"
      then obtain t' where t': "act d t = (d', Continue t')" "set ts' \<subseteq> insert t' (set ts)"
        by blast
      from continue_backed [OF t'(1)] t'(2) old show ?thesis by auto
    next
      assume "set ts' \<subseteq> set ts"
      with old show ?thesis by auto
    qed
    with inv show ?thesis by blast
  qed
qed

lemma execute_unassigned:
  assumes "\<forall>i x. bookings d i = Some x \<longrightarrow> workerId x = None \<longrightarrow>
             status x = PENDING \<or> status x = CANCELLED"
    and "\<forall>t \<in> set ts. backed d t"
  shows "\<forall>i x. bookings (fst (execute (d, ts) es)) i = Some x \<longrightarrow> workerId x = None \<longrightarrow>
             status x = PENDING \<or> status x = CANCELLED"
  using assms
proof (induction es arbitrary: d ts)
  case Nil
  then show ?case by simp
next
  case (Cons e es)
  obtain d' ts' where p: "perform (d, ts) e = (d', ts')" by (cases "perform (d, ts) e")
  from perform_unassigned [OF Cons.prems p]
  have "\<forall>i x. bookings d' i = Some x \<longrightarrow> workerId x = None \<longrightarrow>
             status x = PENDING \<or> status x = CANCELLED"
    and "\<forall>t \<in> set ts'. backed d' t"
    by blast+
  from Cons.IH [OF this] p show ?case by simp
qed

text \<open>
  C5. (1) A booking with no \<open>workerId\<close> is PENDING or CANCELLED: if that holds of
  every booking and no request in flight has read a booking it is about to update,
  it holds after every schedule of requests, their steps interleaved in any way.
  (2) If a booking has left PENDING and no request in flight has read it and has an
  update of it ahead, then after every such schedule its \<open>workerId\<close> is the same and
  it is not PENDING. (3) A step of a request changes a booking's \<open>workerId\<close> only if
  it is the update of an accept, or the update of a status update that took the
  branch for an open booking; and a status update whose read of the booking finds a
  \<open>workerId\<close> that is not empty does not take that branch.
\<close>

theorem worker_assignment_stable:
  assumes "bookings d bid = Some b"
  shows "((\<forall>t \<in> set ts. \<forall>i. \<not> holdsUpdate i t) \<longrightarrow>
          (\<forall>i x. bookings d i = Some x \<longrightarrow> workerId x = None \<longrightarrow>
             status x = PENDING \<or> status x = CANCELLED) \<longrightarrow>
          (\<forall>i x. bookings (fst (execute (d, ts) es)) i = Some x \<longrightarrow> workerId x = None \<longrightarrow>
             status x = PENDING \<or> status x = CANCELLED)) \<and>
         (status b \<noteq> PENDING \<longrightarrow> (\<forall>t \<in> set ts. \<not> holdsUpdate bid t) \<longrightarrow>
          (\<exists>b'. bookings (fst (execute (d, ts) es)) bid = Some b' \<and>
             workerId b' = workerId b \<and> status b' \<noteq> PENDING)) \<and>
         (\<not> writesWorker t \<longrightarrow>
          (\<exists>b'. bookings (fst (act d t)) bid = Some b' \<and> workerId b' = workerId b)) \<and>
         (\<not> falsyString (workerId b) \<longrightarrow>
          (\<forall>t'. snd (act d (PatchRead user bid dat now)) = Continue t' \<longrightarrow>
             t' = PatchUpdate bid b dat None now \<and> \<not> writesWorker t'))"
proof (intro conjI)
  show "(\<forall>t \<in> set ts. \<forall>i. \<not> holdsUpdate i t) \<longrightarrow>
          (\<forall>i x. bookings d i = Some x \<longrightarrow> workerId x = None \<longrightarrow>
             status x = PENDING \<or> status x = CANCELLED) \<longrightarrow>
          (\<forall>i x. bookings (fst (execute (d, ts) es)) i = Some x \<longrightarrow> workerId x = None \<longrightarrow>
             status x = PENDING \<or> status x = CANCELLED)"
  proof (intro impI)
    assume "\<forall>t \<in> set ts. \<forall>i. \<not> holdsUpdate i t"
    then have "\<forall>t \<in> set ts. backed d t" using not_holds_backed by blast
    moreover assume "\<forall>i x. bookings d i = Some x \<longrightarrow> workerId x = None \<longrightarrow>
             status x = PENDING \<or> status x = CANCELLED"
    ultimately show "\<forall>i x. bookings (fst (execute (d, ts) es)) i = Some x \<longrightarrow>
             workerId x = None \<longrightarrow> status x = PENDING \<or> status x = CANCELLED"
      by (rule execute_unassigned [rotated])
  qed
next
  show "status b \<noteq> PENDING \<longrightarrow> (\<forall>t \<in> set ts. \<not> holdsUpdate bid t) \<longrightarrow>
          (\<exists>b'. bookings (fst (execute (d, ts) es)) bid = Some b' \<and>
             workerId b' = workerId b \<and> status b' \<noteq> PENDING)"
  proof (intro impI)
    assume s: "status b \<noteq> PENDING" and "\<forall>t \<in> set ts. \<not> holdsUpdate bid t"
    then have "\<forall>t \<in> set ts. quietFor bid t" using not_holds_quiet by blast
    from execute_quiet [OF assms s this]
    show "\<exists>b'. bookings (fst (execute (d, ts) es)) bid = Some b' \<and>
             workerId b' = workerId b \<and> status b' \<noteq> PENDING" .
  qed
next
  show "\<not> writesWorker t \<longrightarrow>
          (\<exists>b'. bookings (fst (act d t)) bid = Some b' \<and> workerId b' = workerId b)"
    using act_keeps_worker [OF assms, of t] by blast
next
  show "\<not> falsyString (workerId b) \<longrightarrow>
          (\<forall>t'. snd (act d (PatchRead user bid dat now)) = Continue t' \<longrightarrow>
             t' = PatchUpdate bid b dat None now \<and> \<not> writesWorker t')"
    using assms by (auto simp: Let_def split: if_splits)
qed

theorem worker_assignment_stable_witness:
  "map_option workerId
     (bookings (fst (execute (sampleDb ACCEPTED (Some ''w1''), [])
        [Arrive (PostAccept amaUser ''b1''),
         Arrive (PatchBookingStatus kofiUser ''b1'' (statusBody WORKER_EN_ROUTE None) 7),
         Run 0, Run 1, Arrive (AdminCancel ''b1''), Run 0, Run 1, Run 0])) ''b1'') =
     Some (Some ''w1'') \<and>
   map_option workerId
     (bookings (fst (act (sampleDb ACCEPTED (Some ''w1'')) (CancelUpdate ''b1''))) ''b1'') =
     Some (Some ''w1'') \<and>
   snd (act (sampleDb ACCEPTED (Some ''w1''))
          (PatchRead kofiUser ''b1'' \<lparr>dataStatus = WORKER_EN_ROUTE, dataFinalPrice = None\<rparr> 7)) =
     Continue (PatchUpdate ''b1'' (sinkRepair ACCEPTED (Some ''w1''))
                 \<lparr>dataStatus = WORKER_EN_ROUTE, dataFinalPrice = None\<rparr> None 7)"
proof -
  have b: "bookings (sampleDb ACCEPTED (Some ''w1'')) ''b1'' = Some (sinkRepair ACCEPTED (Some ''w1''))"
    by (simp add: sampleDb_def)
  have s: "status (sinkRepair ACCEPTED (Some ''w1'')) \<noteq> PENDING"
    and w: "workerId (sinkRepair ACCEPTED (Some ''w1'')) = Some ''w1''"
    and f: "\<not> falsyString (workerId (sinkRepair ACCEPTED (Some ''w1'')))"
    by (simp_all add: sinkRepair_def falsyString_def)
  have q: "\<forall>t \<in> set []. \<not> holdsUpdate ''b1'' t" by simp
  have n: "\<not> writesWorker (CancelUpdate ''b1'')" by simp
  have c: "\<exists>t'. snd (act (sampleDb ACCEPTED (Some ''w1''))
          (PatchRead kofiUser ''b1'' \<lparr>dataStatus = WORKER_EN_ROUTE, dataFinalPrice = None\<rparr> 7)) =
          Continue t'"
    by (simp add: sampleDb_def sinkRepair_def transitionAllowed_def bookingWorker_def
        findWorkerById_def kofi_def ama_def kofiUser_def falsyString_def)
  note T = worker_assignment_stable [OF b, of "[]"
      "[Arrive (PostAccept amaUser ''b1''),
        Arrive (PatchBookingStatus kofiUser ''b1'' (statusBody WORKER_EN_ROUTE None) 7),
        Run 0, Run 1, Arrive (AdminCancel ''b1''), Run 0, Run 1, Run 0]"
      "CancelUpdate ''b1''" kofiUser "\<lparr>dataStatus = WORKER_EN_ROUTE, dataFinalPrice = None\<rparr>" 7]
  from T [THEN conjunct2, THEN conjunct1] s q w
  have 1: "map_option workerId
     (bookings (fst (execute (sampleDb ACCEPTED (Some ''w1''), [])
        [Arrive (PostAccept amaUser ''b1''),
         Arrive (PatchBookingStatus kofiUser ''b1'' (statusBody WORKER_EN_ROUTE None) 7),
         Run 0, Run 1, Arrive (AdminCancel ''b1''), Run 0, Run 1, Run 0])) ''b1'') =
     Some (Some ''w1'')"
    by auto
  from T [THEN conjunct2, THEN conjunct2, THEN conjunct1] n w
  have 2: "map_option workerId
     (bookings (fst (act (sampleDb ACCEPTED (Some ''w1'')) (CancelUpdate ''b1''))) ''b1'') =
     Some (Some ''w1'')"
    by auto
  from T [THEN conjunct2, THEN conjunct2, THEN conjunct2] f c
  have 3: "snd (act (sampleDb ACCEPTED (Some ''w1''))
          (PatchRead kofiUser ''b1'' \<lparr>dataStatus = WORKER_EN_ROUTE, dataFinalPrice = None\<rparr> 7)) =
     Continue (PatchUpdate ''b1'' (sinkRepair ACCEPTED (Some ''w1''))
                 \<lparr>dataStatus = WORKER_EN_ROUTE, dataFinalPrice = None\<rparr> None 7)"
    by blast
  from 1 2 3 show ?thesis by (intro conjI)
qed

text \<open>A booking created for the worker \<open>w1\<close> and still PENDING is taken over by the
  worker \<open>w2\<close> through the accept endpoint; and a customer who cancels an open booking
  leaves a CANCELLED booking with no worker.\<close>

theorem accept_replaces_requested_worker:
  "map_option workerId (bookings (sampleDb PENDING (Some ''w1'')) ''b1'') = Some (Some ''w1'') \<and>
   map_option workerId
     (bookings (snd (postAccept (sampleDb PENDING (Some ''w1'')) amaUser ''b1'')) ''b1'') =
       Some (Some ''w2'') \<and>
   map_option status
     (bookings (snd (patchBookingStatus (sampleDb PENDING None) customerUser ''b1''
        (statusBody CANCELLED None) 5)) ''b1'') = Some CANCELLED \<and>
   map_option workerId
     (bookings (snd (patchBookingStatus (sampleDb PENDING None) customerUser ''b1''
        (statusBody CANCELLED None) 5)) ''b1'') = Some None"
  by (simp add: sampleDb_def sinkRepair_def postAccept_def acceptReads_def amaUser_def
      findWorkerByUserId_def kofi_def ama_def findWorkerService_def acceptWrites_def
      bookingUpdate_def applyUpdate_def acceptUpdateData_def patchBookingStatus_def
      schema_statusBody transitionAllowed_def bookingWorker_def customerUser_def
      openBookingWorker_def statusUpdateData_def)


section \<open>Several workers accept one booking\<close>

text \<open>The accept handler's guard: an accept that reads a booking which is not PENDING
  fails with \<open>NOT_AVAILABLE\<close>.\<close>

lemma acceptReads_not_pending:
  assumes "bookings d bid = Some b" and "status b \<noteq> PENDING" and "role user = WORKER"
    and "findWorkerByUserId d (uid user) = Some w" and "verificationStatus w = VERIFIED"
  shows "acceptReads d user bid = Inl (AppError 400 ''Booking is not available'' ''NOT_AVAILABLE'')"
  using assms by (simp add: acceptReads_def)


text \<open>
  C3. Two accept requests for one PENDING booking with no \<open>workerId\<close>, by two users
  with the role WORKER, a VERIFIED worker profile and an active service in the
  booking's category, on the schedule in which both handlers finish their reads before
  either writes: the guard lets both pass, both requests succeed, none fails with
  \<open>NOT_AVAILABLE\<close>, and the second update, keyed by the id alone, replaces the first
  worker. A status update to ACCEPTED on the open booking is refused as not coming
  from the booking's worker.
\<close>

theorem overlapped_accepts_both_win:
  "map isl (fst (acceptOverlapped (sampleDb PENDING None) [kofiUser, amaUser] ''b1'')) =
     [False, False] \<and>
   map_option workerId
     (bookings (snd (acceptOverlapped (sampleDb PENDING None) [kofiUser, amaUser] ''b1'')) ''b1'') =
     Some (Some ''w2'') \<and>
   fst (patchBookingStatus (sampleDb PENDING None) kofiUser ''b1'' (statusBody ACCEPTED None) 5) =
     Inl (AppError 403 ''Only worker can update status'' ''FORBIDDEN'')"
  by (simp add: acceptOverlapped_def acceptReads_def kofiUser_def amaUser_def
      findWorkerByUserId_def sampleDb_def kofi_def ama_def sinkRepair_def
      findWorkerService_def acceptWrites_def bookingUpdate_def applyUpdate_def
      acceptUpdateData_def patchBookingStatus_def schema_statusBody transitionAllowed_def
      bookingWorker_def)



text \<open>The same schedule step by step: after the first accept's update the booking is
  ACCEPTED for \<open>w1\<close>, after the second's it is ACCEPTED for \<open>w2\<close>.\<close>

lemma overlapped_accepts_step_by_step:
  "map_option workerId
     (bookings (fst (execute (sampleDb PENDING None, [])
        [Arrive (PostAccept kofiUser ''b1''), Arrive (PostAccept amaUser ''b1''),
         Run 0, Run 0, Run 0, Run 1, Run 1, Run 1, Run 0])) ''b1'') = Some (Some ''w1'') \<and>
   map_option workerId
     (bookings (fst (execute (sampleDb PENDING None, [])
        [Arrive (PostAccept kofiUser ''b1''), Arrive (PostAccept amaUser ''b1''),
         Run 0, Run 0, Run 0, Run 1, Run 1, Run 1, Run 0, Run 1])) ''b1'') = Some (Some ''w2'')"
  by (simp add: kofiUser_def amaUser_def findWorkerByUserId_def sampleDb_def kofi_def
      ama_def sinkRepair_def findWorkerService_def bookingUpdate_def applyUpdate_def
      acceptUpdateData_def)

end
